theory Spec2Isabelle
  imports Complex_Main
begin

section \<open>Heart-rate monitor: the simulator core of project2.py\<close>

text \<open>
  The embedding follows \<^verbatim>\<open>src/project2.py\<close>: the class \<^verbatim>\<open>MonitorState\<close>, its method
  \<^verbatim>\<open>log_event\<close>, the coroutine \<^verbatim>\<open>run_simulation\<close> and the two button handlers
  \<^verbatim>\<open>start_monitoring\<close> and \<^verbatim>\<open>stop_monitoring\<close>.

  Conventions of the model.
  \<^item> A Python \<^verbatim>\<open>float\<close> is the \<^typ>\<open>real\<close> number it denotes. The arithmetic on the signal
    (lines 68 to 85: \<^verbatim>\<open>random.uniform\<close>, the momentum update, \<^verbatim>\<open>round(..., 2)\<close>) is double
    precision arithmetic: every operation returns the double nearest to the exact result,
    ties to the even mantissa. A float literal is the double nearest to its decimal. The
    exponent range is not bounded: the magnitudes of this program stay far from overflow
    and underflow.
  \<^item> The average of line 93 is the exact quotient of the exact sum, and the summary of
    \<^verbatim>\<open>stop_monitoring\<close> holds the decimal that \<^verbatim>\<open>round(..., 1)\<close> selects.
  \<^item> Python's \<^verbatim>\<open>int\<close> is \<^typ>\<open>int\<close>, \<^verbatim>\<open>str\<close> is \<^typ>\<open>string\<close>.
  \<^item> The random generator and the clock are inputs: every loop iteration receives the
    values that \<^verbatim>\<open>random.random()\<close> and \<^verbatim>\<open>datetime.now()\<close> return to it.
  \<^item> Mutation of the module-level \<^verbatim>\<open>monitor_state\<close> is explicit state passing.
  \<^item> Calls into the Flet page (\<^verbatim>\<open>page.run_task\<close>, \<^verbatim>\<open>page.go\<close>) are returned as a list
    of effects.
\<close>

subsection \<open>Data model\<close>

text \<open>An element of \<^verbatim>\<open>MonitorState.logs\<close>: the dict \<^verbatim>\<open>{"time", "message", "type"}\<close>.\<close>

record log_entry =
  time :: string
  message :: string
  type :: string

text \<open>
  The dict appended to \<^verbatim>\<open>history_sessions\<close> by \<^verbatim>\<open>stop_monitoring\<close>. Its keys are
  \<^verbatim>\<open>date, activity, duration, avg_bpm, max_bpm, min_bpm\<close>; the fields carry the prefix
  \<open>s_\<close> because the state below has fields of the same names.
\<close>

record session_data =
  s_date :: string
  s_activity :: string
  s_duration :: string
  s_avg_bpm :: real
  s_max_bpm :: int
  s_min_bpm :: int

text \<open>
  \<^verbatim>\<open>class MonitorState\<close>. The attribute \<^verbatim>\<open>on_update\<close> holds a callable and is passed to
  the simulation as a separate argument.
\<close>

record monitor_state =
  name :: string
  height :: string
  weight :: string
  gender :: string
  age :: string
  activity :: string
  heart_rate :: real
  history :: "(int \<times> real) list"
  logs :: "log_entry list"
  time_counter :: int
  heart_scale :: real
  min_bpm :: real
  max_bpm :: real
  is_monitoring :: bool
  total_time :: int
  avg_bpm :: real
  session_readings :: "real list"
  history_sessions :: "session_data list"

text \<open>\<^verbatim>\<open>MonitorState.__init__\<close>\<close>

definition init_state :: monitor_state where
  "init_state =
     \<lparr> name = '''', height = '''', weight = '''', gender = '''', age = '''',
       activity = '''',
       heart_rate = 72,
       history = [],
       logs = [],
       time_counter = 0,
       heart_scale = 1,
       min_bpm = 999,
       max_bpm = 0,
       is_monitoring = False,
       total_time = 0,
       avg_bpm = 0,
       session_readings = [],
       history_sessions = [] \<rparr>"

subsection \<open>Python primitives used by the code\<close>

text \<open>Rounding to the nearest integer, ties to the even neighbour.\<close>

definition round_half_even :: "real \<Rightarrow> int" where
  "round_half_even x =
     (let f = \<lfloor>x\<rfloor>; d = x - of_int f
      in if d < 1 / 2 then f
         else if 1 / 2 < d then f + 1
         else if even f then f else f + 1)"

text \<open>
  The binary exponent of a positive number: \<open>2 powi binade x \<le> x < 2 powi (binade x + 1)\<close>.
\<close>

function binade :: "real \<Rightarrow> int" where
  "binade x = (if x \<le> 0 then 0
               else if 2 \<le> x then binade (x / 2) + 1
               else if x < 1 then binade (x * 2) - 1
               else 0)"
  by pat_completeness auto

termination
proof (relation "measure (\<lambda>x. 2 * nat \<lceil>1 / x\<rceil> + nat \<lfloor>x\<rfloor>)")
  show "wf (measure (\<lambda>x. 2 * nat \<lceil>1 / x\<rceil> + nat \<lfloor>x\<rfloor>))" by simp
next
  fix x :: real
  assume a: "\<not> x \<le> 0" "2 \<le> x"
  have c1: "\<lceil>1 / x\<rceil> = 1" using a by (simp add: ceiling_eq_iff)
  have c2: "\<lceil>1 / (x / 2)\<rceil> = 1" using a by (simp add: ceiling_eq_iff)
  have "\<lfloor>x / 2\<rfloor> < \<lfloor>x\<rfloor>" using a by linarith
  moreover have "0 \<le> \<lfloor>x / 2\<rfloor>" using a by simp
  ultimately have "nat \<lfloor>x / 2\<rfloor> < nat \<lfloor>x\<rfloor>" by linarith
  then show "(x / 2, x) \<in> measure (\<lambda>x. 2 * nat \<lceil>1 / x\<rceil> + nat \<lfloor>x\<rfloor>)"
    unfolding in_measure c1 c2 by simp
next
  fix x :: real
  assume a: "\<not> x \<le> 0" "\<not> 2 \<le> x" "x < 1"
  define y where "y = 1 / x"
  have y: "1 < y" using a by (simp add: y_def)
  have fx: "\<lfloor>x\<rfloor> = 0" using a by (simp add: floor_eq_iff)
  have e: "1 / (x * 2) = y / 2" by (simp add: y_def)
  define n where "n = nat \<lfloor>x * 2\<rfloor>"
  have f2: "n \<le> 1" unfolding n_def using a by linarith
  have f2': "y \<le> 2" if "n = 1"
  proof -
    have "1 \<le> x * 2" using that unfolding n_def by linarith
    then have "1 / 2 \<le> x" by simp
    then show "y \<le> 2" using a unfolding y_def by (simp add: field_simps)
  qed
  have "2 * nat \<lceil>y / 2\<rceil> + n < 2 * nat \<lceil>y\<rceil>"
  proof (cases "y \<le> 2")
    case True
    then have "\<lceil>y / 2\<rceil> = 1" using y by (simp add: ceiling_eq_iff)
    moreover have "\<lceil>y\<rceil> = 2" using y True by (simp add: ceiling_eq_iff)
    ultimately show ?thesis using f2 by simp
  next
    case False
    then have "n \<noteq> 1" using f2' by blast
    then have z: "n = 0" using f2 by simp
    have "\<lceil>y / 2\<rceil> < \<lceil>y\<rceil>" using False by linarith
    moreover have "0 < \<lceil>y / 2\<rceil>" using y by simp
    ultimately have "nat \<lceil>y / 2\<rceil> < nat \<lceil>y\<rceil>" by linarith
    then show ?thesis using z by simp
  qed
  then show "(x * 2, x) \<in> measure (\<lambda>x. 2 * nat \<lceil>1 / x\<rceil> + nat \<lfloor>x\<rfloor>)"
    unfolding in_measure e fx n_def [symmetric] y_def [symmetric] by simp
qed

declare binade.simps [simp del]

text \<open>
  The double nearest to a real number: the mantissa has 53 bits, so in the binade of
  exponent \<open>e\<close> the doubles are the multiples of \<open>2 powi (e - 52)\<close>; a number halfway between
  two doubles goes to the one with the even mantissa.
\<close>

definition fl :: "real \<Rightarrow> real" where
  "fl x =
     (if x = 0 then 0
      else let e = binade \<bar>x\<bar>;
               m = round_half_even (\<bar>x\<bar> * 2 powi (52 - e))
           in sgn x * of_int m * 2 powi (e - 52))"

text \<open>The operators \<^verbatim>\<open>+\<close>, \<^verbatim>\<open>-\<close> and \<^verbatim>\<open>*\<close> on floats.\<close>

definition fadd :: "real \<Rightarrow> real \<Rightarrow> real" where
  "fadd x y = fl (x + y)"

definition fsub :: "real \<Rightarrow> real \<Rightarrow> real" where
  "fsub x y = fl (x - y)"

definition fmul :: "real \<Rightarrow> real \<Rightarrow> real" where
  "fmul x y = fl (x * y)"

text \<open>\<^verbatim>\<open>random.uniform(a, b)\<close> is \<^verbatim>\<open>a + (b - a) * random()\<close>; \<open>u\<close> is the value of \<^verbatim>\<open>random()\<close>.\<close>

definition uniform :: "real \<Rightarrow> real \<Rightarrow> real \<Rightarrow> real" where
  "uniform a b u = fadd a (fmul (fsub b a) u)"

text \<open>
  \<^verbatim>\<open>random()\<close> returns a value in \<open>[0, 1)\<close>. The closed bound is used, which also covers
  the end point that \<^verbatim>\<open>uniform\<close> may reach through rounding.
\<close>

definition unit_draw :: "real \<Rightarrow> bool" where
  "unit_draw u = (0 \<le> u \<and> u \<le> 1)"

text \<open>
  \<^verbatim>\<open>round(x, ndigits)\<close> on a float, for \<^verbatim>\<open>ndigits >= 0\<close>: the decimal with \<open>ndigits\<close> places
  nearest to \<open>x\<close>, ties to the even last digit. The float that \<^verbatim>\<open>round\<close> returns is the
  double nearest to this decimal.
\<close>

definition py_round :: "real \<Rightarrow> nat \<Rightarrow> real" where
  "py_round x ndigits = of_int (round_half_even (x * 10 ^ ndigits)) / 10 ^ ndigits"

text \<open>\<^verbatim>\<open>int(x)\<close> on a float truncates towards zero.\<close>

definition py_int :: "real \<Rightarrow> int" where
  "py_int x = (if 0 \<le> x then \<lfloor>x\<rfloor> else \<lceil>x\<rceil>)"

text \<open>Decimal rendering of an integer, as \<^verbatim>\<open>str\<close> and an f-string field \<^verbatim>\<open>{n}\<close> do.\<close>

definition digit_char :: "nat \<Rightarrow> char" where
  "digit_char d =
     (if d = 0 then CHR ''0'' else if d = 1 then CHR ''1'' else if d = 2 then CHR ''2''
      else if d = 3 then CHR ''3'' else if d = 4 then CHR ''4'' else if d = 5 then CHR ''5''
      else if d = 6 then CHR ''6'' else if d = 7 then CHR ''7'' else if d = 8 then CHR ''8''
      else CHR ''9'')"

fun str_nat :: "nat \<Rightarrow> string" where
  "str_nat n = (if n < 10 then [digit_char n] else str_nat (n div 10) @ [digit_char (n mod 10)])"

declare str_nat.simps [simp del]

definition str_int :: "int \<Rightarrow> string" where
  "str_int i = (if i < 0 then CHR ''-'' # str_nat (nat (- i)) else str_nat (nat i))"

text \<open>The f-string field \<^verbatim>\<open>{n:02d}\<close>: zero padding up to width 2.\<close>

definition fmt_02d :: "int \<Rightarrow> string" where
  "fmt_02d i = (let s = str_int i in replicate (2 - length s) (CHR ''0'') @ s)"

subsection \<open>\<^verbatim>\<open>MonitorState.log_event\<close>\<close>

text \<open>
  \<open>now\<close> is \<^verbatim>\<open>datetime.datetime.now().strftime("%H:%M:%S")\<close>. \<^verbatim>\<open>insert(0, e)\<close> puts the
  entry at the head, \<^verbatim>\<open>pop()\<close> removes the last element.
\<close>

definition log_event :: "string \<Rightarrow> string \<Rightarrow> string \<Rightarrow> monitor_state \<Rightarrow> monitor_state" where
  "log_event now msg ty s =
     (if logs s \<noteq> [] \<and> message (hd (logs s)) = msg \<and> type (hd (logs s)) = ty then s
      else
        let ls = \<lparr> time = now, message = msg, type = ty \<rparr> # logs s
        in s\<lparr> logs := (if length ls > 100 then butlast ls else ls) \<rparr>)"

subsection \<open>\<^verbatim>\<open>run_simulation\<close>\<close>

text \<open>
  The tuple \<^verbatim>\<open>(base_hr, target_range, momentum, fluctuation)\<close> of an activity, and the
  dict \<^verbatim>\<open>activity_profiles\<close>. The first two components are \<^verbatim>\<open>int\<close> literals, the last two
  float literals.
\<close>

type_synonym profile = "real \<times> real \<times> real \<times> real"

definition activity_profiles :: "string \<rightharpoonup> profile" where
  "activity_profiles =
     [ ''Resting'' \<mapsto> (60, 80, fl (9 / 10), fl (5 / 10)),
       ''Walking'' \<mapsto> (90, 110, fl (7 / 10), fl 1),
       ''Running'' \<mapsto> (130, 160, fl (4 / 10), fl 2),
       ''Gym'' \<mapsto> (110, 140, fl (5 / 10), fl (15 / 10)),
       ''Swimming'' \<mapsto> (100, 130, fl (6 / 10), fl (12 / 10)) ]"

text \<open>\<^verbatim>\<open>activity_profiles.get(monitor_state.activity, (70, 100, 0.8, 0.8))\<close>\<close>

definition get_profile :: "string \<Rightarrow> profile" where
  "get_profile a =
     (case activity_profiles a of Some p \<Rightarrow> p | None \<Rightarrow> (70, 100, fl (8 / 10), fl (8 / 10)))"

text \<open>
  What one loop iteration reads from outside the state: the three values of
  \<^verbatim>\<open>random()\<close> behind the calls of \<^verbatim>\<open>random.uniform\<close> (target, noise, and the re-draw of
  the boundary branch, consumed only when a branch fires), and the clock string for
  \<^verbatim>\<open>log_event\<close>. \<open>stop_pressed\<close> is the date string of a \<^verbatim>\<open>stop_monitoring\<close> call that the
  event loop runs while the task is in \<^verbatim>\<open>await asyncio.sleep(1)\<close>, if there is one.
\<close>

record tick =
  u_target :: real
  u_noise :: real
  u_redraw :: real
  now :: string
  stop_pressed :: "string option"

text \<open>
  The callable in \<^verbatim>\<open>monitor_state.on_update\<close>. It reads the state (\<^verbatim>\<open>update_ui\<close> assigns
  to no attribute of it) and either returns (\<open>None\<close>) or raises an exception with the
  given text.
\<close>

type_synonym callback = "monitor_state \<Rightarrow> string option"

text \<open>
  Lines 68 to 77: target, noise, momentum update, \<^verbatim>\<open>round(..., 2)\<close>. The augmented assignment
  of line 74 evaluates its right-hand side, the product plus \<^verbatim>\<open>random_step\<close>, and adds the
  result to \<^verbatim>\<open>heart_rate\<close>.
\<close>

definition apply_momentum :: "profile \<Rightarrow> tick \<Rightarrow> monitor_state \<Rightarrow> monitor_state" where
  "apply_momentum p t s =
     (case p of (base_hr, target_range, momentum, fluctuation) \<Rightarrow>
        let target_hr = uniform base_hr target_range (u_target t);
            random_step = uniform (- fluctuation) fluctuation (u_noise t);
            hr = fadd (heart_rate s)
                   (fadd (fmul (fsub target_hr (heart_rate s)) (fsub 1 momentum)) random_step)
        in s\<lparr> heart_rate := fl (py_round hr 2) \<rparr>)"

text \<open>Lines 80 to 85: the two boundary branches, each with its re-draw and its log entry.\<close>

definition enforce_boundaries :: "tick \<Rightarrow> monitor_state \<Rightarrow> monitor_state" where
  "enforce_boundaries t s =
     (if heart_rate s < 40 then
        let s1 = s\<lparr> heart_rate := uniform 40 45 (u_redraw t) \<rparr>
        in log_event (now t)
             (''Low HR boundary hit: '' @ str_int (py_int (heart_rate s1)) @ '' bpm'') ''ALERT'' s1
      else if heart_rate s > 190 then
        let s1 = s\<lparr> heart_rate := uniform 180 190 (u_redraw t) \<rparr>
        in log_event (now t)
             (''High HR boundary hit: '' @ str_int (py_int (heart_rate s1)) @ '' bpm'') ''ALERT'' s1
      else s)"

text \<open>Lines 88 to 93: running minimum and maximum, the reading, the average.\<close>

definition update_session_stats :: "monitor_state \<Rightarrow> monitor_state" where
  "update_session_stats s =
     (let s1 = s\<lparr> min_bpm := min (min_bpm s) (heart_rate s) \<rparr>;
          s2 = s1\<lparr> max_bpm := max (max_bpm s1) (heart_rate s1) \<rparr>;
          s3 = s2\<lparr> session_readings := session_readings s2 @ [heart_rate s2] \<rparr>
      in if session_readings s3 \<noteq> []
         then s3\<lparr> avg_bpm := sum_list (session_readings s3) / of_nat (length (session_readings s3)) \<rparr>
         else s3)"

text \<open>Lines 96 to 101: the counters and the chart window; \<^verbatim>\<open>pop(0)\<close> removes the first element.\<close>

definition update_chart_history :: "monitor_state \<Rightarrow> monitor_state" where
  "update_chart_history s =
     (let s1 = s\<lparr> time_counter := time_counter s + 1 \<rparr>;
          s2 = s1\<lparr> total_time := total_time s1 + 1 \<rparr>;
          s3 = s2\<lparr> history := history s2 @ [(time_counter s2, heart_rate s2)] \<rparr>
      in if length (history s3) > 60 then s3\<lparr> history := tl (history s3) \<rparr> else s3)"

text \<open>Line 104.\<close>

definition heartbeat_animation :: "monitor_state \<Rightarrow> monitor_state" where
  "heartbeat_animation s = s\<lparr> heart_scale := (if heart_scale s = 1 then fl (12 / 10) else 1) \<rparr>"

text \<open>
  One pass through the body of the \<^verbatim>\<open>while\<close> loop up to the \<^verbatim>\<open>await\<close> (lines 68 to 108).
  The result is the exception raised by the callback, if any, and the state as the body
  left it.
\<close>

definition step :: "profile \<Rightarrow> callback option \<Rightarrow> tick \<Rightarrow> monitor_state \<Rightarrow> string option \<times> monitor_state" where
  "step p on_update t s =
     (let s1 = apply_momentum p t s;
          s2 = enforce_boundaries t s1;
          s3 = update_session_stats s2;
          s4 = update_chart_history s3;
          s5 = heartbeat_animation s4
      in case on_update of
           None \<Rightarrow> (None, s5)
         | Some f \<Rightarrow> (f s5, s5))"

text \<open>Effects on the Flet page requested by a handler.\<close>

datatype effect = RunTask | Go string

text \<open>\<^verbatim>\<open>stop_monitoring\<close> (lines 260 to 272); \<open>date\<close> is \<^verbatim>\<open>now().strftime("%Y-%m-%d %H:%M")\<close>.\<close>

definition stop_monitoring :: "string \<Rightarrow> monitor_state \<Rightarrow> monitor_state \<times> effect list" where
  "stop_monitoring date s =
     (let s1 = s\<lparr> is_monitoring := False \<rparr>;
          s2 = (if session_readings s1 \<noteq> [] then
                  let session = \<lparr> s_date = date,
                                  s_activity = activity s1,
                                  s_duration = str_int (total_time s1 div 60) @ '':'' @ fmt_02d (total_time s1 mod 60),
                                  s_avg_bpm = py_round (avg_bpm s1) 1,
                                  s_max_bpm = py_int (max_bpm s1),
                                  s_min_bpm = py_int (min_bpm s1) \<rparr>
                  in s1\<lparr> history_sessions := history_sessions s1 @ [session] \<rparr>
                else s1)
      in (s2, [Go ''/activity'']))"

text \<open>\<^verbatim>\<open>start_monitoring\<close> (lines 246 to 258).\<close>

definition start_monitoring :: "monitor_state \<Rightarrow> monitor_state \<times> effect list" where
  "start_monitoring s =
     (if activity s \<noteq> [] then
        (s\<lparr> is_monitoring := True,
            min_bpm := 999,
            max_bpm := 0,
            avg_bpm := 0,
            total_time := 0,
            session_readings := [],
            history := [],
            time_counter := 0,
            logs := [] \<rparr>,
         [RunTask, Go ''/monitor''])
      else (s, []))"

text \<open>
  The loop of \<^verbatim>\<open>run_simulation\<close> with its \<^verbatim>\<open>try/except\<close>. The list holds the inputs of
  the iterations observed so far; when it is used up the task is suspended in its sleep.
  The third component is what the \<^verbatim>\<open>except\<close> branch prints.
\<close>

datatype loop_status = Exited | Faulted | Sleeping

datatype diagnostic = Printed string | Traceback string

text \<open>
  What the event loop does to the state while the task waits in \<^verbatim>\<open>await asyncio.sleep(1)\<close>:
  nothing, or the handler \<^verbatim>\<open>stop_monitoring\<close>.
\<close>

definition during_sleep :: "tick \<Rightarrow> monitor_state \<Rightarrow> monitor_state" where
  "during_sleep t s = (case stop_pressed t of None \<Rightarrow> s | Some date \<Rightarrow> fst (stop_monitoring date s))"

fun simulation_loop ::
  "profile \<Rightarrow> callback option \<Rightarrow> tick list \<Rightarrow> monitor_state \<Rightarrow> loop_status \<times> monitor_state \<times> diagnostic list" where
  "simulation_loop p on_update [] s = (if is_monitoring s then Sleeping else Exited, s, [])"
| "simulation_loop p on_update (t # ts) s =
     (if \<not> is_monitoring s then (Exited, s, [])
      else case step p on_update t s of
             (Some e, s') \<Rightarrow> (Faulted, s', [Printed (''Simulation Error: '' @ e), Traceback e])
           | (None, s') \<Rightarrow> simulation_loop p on_update ts (during_sleep t s'))"

declare simulation_loop.simps [simp del]

text \<open>The profile is looked up once, before the loop (line 62).\<close>

definition run_simulation ::
  "callback option \<Rightarrow> tick list \<Rightarrow> monitor_state \<Rightarrow> loop_status \<times> monitor_state \<times> diagnostic list" where
  "run_simulation on_update ts s = simulation_loop (get_profile (activity s)) on_update ts s"

subsection \<open>Reference definitions for the properties\<close>

text \<open>
  Steps 1 to 4 of the stepping algorithm as the specification words them: target, noise,
  smoothing update, rounding to two decimals. The operations are those of the formula
  \<open>heartRate + (targetHr - heartRate) * (1 - momentum) + noise\<close>, on floats; the increment
  \<open>(targetHr - heartRate) * (1 - momentum) + noise\<close> is formed first and then added.
\<close>

definition spec_smoothed :: "profile \<Rightarrow> tick \<Rightarrow> real \<Rightarrow> real" where
  "spec_smoothed p t heartRate =
     (case p of (baseMin, baseMax, momentum, fluctuation) \<Rightarrow>
        let targetHr = uniform baseMin baseMax (u_target t);
            noise = uniform (- fluctuation) fluctuation (u_noise t);
            increment = fadd (fmul (fsub targetHr heartRate) (fsub 1 momentum)) noise
        in fl (py_round (fadd heartRate increment) 2))"

text \<open>Step 5 of the specification: the re-draw below 40 and above 190.\<close>

definition spec_clamped :: "tick \<Rightarrow> real \<Rightarrow> real" where
  "spec_clamped t heartRate =
     (if heartRate < 40 then uniform 40 45 (u_redraw t)
      else if heartRate > 190 then uniform 180 190 (u_redraw t)
      else heartRate)"

text \<open>
  One step of the specification's algorithm on the heart rate, and a run of steps over a
  sequence of inputs, applied in order.
\<close>

definition spec_step :: "profile \<Rightarrow> tick \<Rightarrow> real \<Rightarrow> real" where
  "spec_step p t heartRate = spec_clamped t (spec_smoothed p t heartRate)"

definition spec_trajectory :: "profile \<Rightarrow> tick list \<Rightarrow> real \<Rightarrow> real" where
  "spec_trajectory p ts heartRate = foldl (\<lambda>h t. spec_step p t h) heartRate ts"

text \<open>The entries at positions 0 and 1 differ in message or in type.\<close>

definition head_distinct :: "log_entry list \<Rightarrow> bool" where
  "head_distinct ls =
     (case ls of a # b # _ \<Rightarrow> \<not> (message a = message b \<and> type a = type b) | _ \<Rightarrow> True)"

text \<open>Concrete inputs used to instantiate the theorems.\<close>

definition example_tick :: tick where
  "example_tick =
     \<lparr> u_target = 1 / 2, u_noise = 1 / 2, u_redraw = 1 / 2, now = ''12:00:00'',
       stop_pressed = None \<rparr>"

definition example_log :: log_entry where
  "example_log =
     \<lparr> time = ''11:59:59'', message = ''Low HR boundary hit: 42 bpm'', type = ''ALERT'' \<rparr>"

text \<open>A session of the activity Running, just started, and the same session one step later.\<close>

definition running_start :: monitor_state where
  "running_start = fst (start_monitoring (init_state\<lparr>activity := ''Running''\<rparr>))"

definition monitoring_state :: monitor_state where
  "monitoring_state = snd (step (get_profile ''Running'') None example_tick running_start)"

text \<open>A session of the activity Gym, just started.\<close>

definition gym_start :: monitor_state where
  "gym_start = fst (start_monitoring (init_state\<lparr>activity := ''Gym''\<rparr>))"

text \<open>A callback that raises.\<close>

definition failing_callback :: callback where
  "failing_callback = (\<lambda>s. Some ''control detached'')"


text \<open>
  The readings of a session paired with their tick numbers 1, 2, ..., and of these pairs
  the last 60.
\<close>

definition recent_window :: "real list \<Rightarrow> (int \<times> real) list" where
  "recent_window rs =
     (let samples = zip (map int [1..<Suc (length rs)]) rs
      in drop (length samples - 60) samples)"

text \<open>The chart history is that window, and the tick counter counts the readings.\<close>

definition window_inv :: "monitor_state \<Rightarrow> bool" where
  "window_inv s =
     (time_counter s = int (length (session_readings s)) \<and>
      history s = recent_window (session_readings s))"

text \<open>
  The state of a session: \<open>start_monitoring\<close> on \<open>s0\<close>, then the task running over the
  inputs \<open>ts\<close>; and the state after the first pass through the loop body.
\<close>

definition session_after :: "callback option \<Rightarrow> tick list \<Rightarrow> monitor_state \<Rightarrow> monitor_state" where
  "session_after on_update ts s0 = fst (snd (run_simulation on_update ts (fst (start_monitoring s0))))"

definition first_step :: "callback option \<Rightarrow> tick \<Rightarrow> monitor_state \<Rightarrow> monitor_state" where
  "first_step on_update t s0 =
     snd (step (get_profile (activity s0)) on_update t (fst (start_monitoring s0)))"

definition running_selected :: monitor_state where
  "running_selected = init_state\<lparr>activity := ''Running''\<rparr>"

text \<open>
  The duration as the specification words it: minutes and seconds of the total time, both
  rendered with two digits.
\<close>

definition spec_mmss :: "int \<Rightarrow> string" where
  "spec_mmss totalTimeSeconds =
     fmt_02d (totalTimeSeconds div 60) @ '':'' @ fmt_02d (totalTimeSeconds mod 60)"

text \<open>The summary that \<open>stop_monitoring\<close> has appended.\<close>

definition last_summary :: "string \<Rightarrow> monitor_state \<Rightarrow> session_data" where
  "last_summary d s = last (history_sessions (fst (stop_monitoring d s)))"

text \<open>A session of 65 seconds.\<close>

definition long_session :: monitor_state where
  "long_session = monitoring_state\<lparr> total_time := 65 \<rparr>"


section \<open>Properties\<close>

subsection \<open>Rounding to a double\<close>

lemma round_half_even_cases:
  "round_half_even x = \<lfloor>x\<rfloor> \<and> x - of_int \<lfloor>x\<rfloor> \<le> 1 / 2 \<or>
   round_half_even x = \<lfloor>x\<rfloor> + 1 \<and> 1 / 2 \<le> x - of_int \<lfloor>x\<rfloor>"
  unfolding round_half_even_def Let_def by auto

lemma round_half_even_of_int [simp]: "round_half_even (of_int n) = n"
  by (simp add: round_half_even_def)

lemma round_half_even_mono:
  assumes "x \<le> y"
  shows "round_half_even x \<le> round_half_even y"
proof (cases "\<lfloor>x\<rfloor> = \<lfloor>y\<rfloor>")
  case True
  have d: "x - of_int \<lfloor>x\<rfloor> \<le> y - of_int \<lfloor>y\<rfloor>" using assms True by simp
  show ?thesis
    using d unfolding round_half_even_def Let_def True by auto
next
  case False
  have "\<lfloor>x\<rfloor> \<le> \<lfloor>y\<rfloor>" using assms by (rule floor_mono)
  then have lt: "\<lfloor>x\<rfloor> + 1 \<le> \<lfloor>y\<rfloor>" using False by simp
  have "round_half_even x \<le> \<lfloor>x\<rfloor> + 1" using round_half_even_cases [of x] by auto
  moreover have "\<lfloor>y\<rfloor> \<le> round_half_even y" using round_half_even_cases [of y] by auto
  ultimately show ?thesis using lt by simp
qed

lemma round_half_even_close: "\<bar>of_int (round_half_even x) - x\<bar> \<le> 1 / 2"
proof -
  define f :: real where "f = of_int \<lfloor>x\<rfloor>"
  have b: "f \<le> x" "x < f + 1" unfolding f_def by linarith+
  have "real_of_int (round_half_even x) = f \<and> x - f \<le> 1 / 2 \<or>
        real_of_int (round_half_even x) = f + 1 \<and> 1 / 2 \<le> x - f"
    unfolding round_half_even_def Let_def f_def by auto
  then show ?thesis using b by (auto simp: abs_if)
qed

lemma pow2_pos [simp]: "0 < (2::real) powi e"
  by (simp add: zero_less_power_int)

lemma pow2_Suc: "(2::real) powi (e + 1) = 2 * 2 powi e"
  by (simp add: power_int_add)

lemma pow2_pred: "(2::real) powi (e - 1) = 2 powi e / 2"
  by (simp add: power_int_diff)

lemma pow2_cancel: "(2::real) powi a * 2 powi (b - a) = 2 powi b"
  by (simp add: power_int_diff)

lemma binade_bounds:
  "0 < x \<Longrightarrow> 2 powi binade x \<le> x \<and> x < 2 powi (binade x + 1)"
proof (induction x rule: binade.induct)
  case (1 x)
  consider (big) "2 \<le> x" | (small) "x < 1" | (unit) "1 \<le> x" "x < 2" by linarith
  then show ?case
  proof cases
    case big
    have b: "binade x = binade (x / 2) + 1" using big by (subst binade.simps) simp
    have ih: "2 powi binade (x / 2) \<le> x / 2 \<and> x / 2 < 2 powi (binade (x / 2) + 1)"
      using "1.IH"(1) big "1.prems" by simp
    show ?thesis using ih unfolding b pow2_Suc by linarith
  next
    case small
    have b: "binade x = binade (x * 2) - 1" using small "1.prems" by (subst binade.simps) simp
    have ih: "2 powi binade (x * 2) \<le> x * 2 \<and> x * 2 < 2 powi (binade (x * 2) + 1)"
      using "1.IH"(2) small "1.prems" by simp
    show ?thesis unfolding b using ih by (simp add: pow2_Suc pow2_pred)
  next
    case unit
    have b: "binade x = 0" using unit by (subst binade.simps) simp
    show ?thesis unfolding b using unit by simp
  qed
qed

lemma binade_mono:
  assumes "0 < x" and "x \<le> y"
  shows "binade x \<le> binade y"
proof (rule ccontr)
  assume "\<not> binade x \<le> binade y"
  then have "binade y + 1 \<le> binade x" by simp
  then have "(2::real) powi (binade y + 1) \<le> 2 powi binade x"
    by (intro power_int_increasing) simp_all
  moreover have "y < 2 powi (binade y + 1)" using binade_bounds [of y] assms by simp
  moreover have "2 powi binade x \<le> x" using binade_bounds [of x] assms by simp
  ultimately show False using assms by linarith
qed

lemma fl_positive:
  "0 < x \<Longrightarrow>
   fl x = of_int (round_half_even (x * 2 powi (52 - binade x))) * 2 powi (binade x - 52)"
  by (simp add: fl_def Let_def)

lemma fl_zero [simp]: "fl 0 = 0"
  by (simp add: fl_def)

lemma fl_minus: "fl (- x) = - fl x"
  by (simp add: fl_def Let_def sgn_if)

lemma fl_lower:
  assumes "0 < x"
  shows "2 powi binade x \<le> fl x"
proof -
  let ?e = "binade x"
  have "2 powi ?e * 2 powi (52 - ?e) \<le> x * 2 powi (52 - ?e)"
    using binade_bounds [OF assms] by (intro mult_right_mono) simp_all
  then have "real_of_int (2 ^ 52) \<le> x * 2 powi (52 - ?e)"
    unfolding pow2_cancel by simp
  then have "round_half_even (real_of_int (2 ^ 52)) \<le> round_half_even (x * 2 powi (52 - ?e))"
    by (rule round_half_even_mono)
  then have "(2 ^ 52 :: int) \<le> round_half_even (x * 2 powi (52 - ?e))"
    unfolding round_half_even_of_int .
  then have "real_of_int (2 ^ 52) \<le> real_of_int (round_half_even (x * 2 powi (52 - ?e)))"
    by (simp only: of_int_le_iff)
  then have "real_of_int (2 ^ 52) * 2 powi (?e - 52) \<le> fl x"
    unfolding fl_positive [OF assms] by (intro mult_right_mono) simp_all
  moreover have "real_of_int (2 ^ 52) * 2 powi (?e - 52) = 2 powi ?e"
    using pow2_cancel [of 52 ?e] by simp
  ultimately show ?thesis by simp
qed

lemma fl_upper:
  assumes "0 < x"
  shows "fl x \<le> 2 powi (binade x + 1)"
proof -
  let ?e = "binade x"
  have "x * 2 powi (52 - ?e) \<le> 2 powi (?e + 1) * 2 powi (52 - ?e)"
    using binade_bounds [OF assms] by (intro mult_right_mono) simp_all
  also have "2 powi (?e + 1) * 2 powi (52 - ?e) = (2::real) powi 53"
    using pow2_cancel [of "?e + 1" 53] by (simp add: algebra_simps)
  finally have "x * 2 powi (52 - ?e) \<le> real_of_int (2 ^ 53)" by simp
  then have "round_half_even (x * 2 powi (52 - ?e)) \<le> round_half_even (real_of_int (2 ^ 53))"
    by (rule round_half_even_mono)
  then have "round_half_even (x * 2 powi (52 - ?e)) \<le> (2 ^ 53 :: int)"
    unfolding round_half_even_of_int .
  then have "real_of_int (round_half_even (x * 2 powi (52 - ?e))) \<le> real_of_int (2 ^ 53)"
    by (simp only: of_int_le_iff)
  then have "fl x \<le> real_of_int (2 ^ 53) * 2 powi (?e - 52)"
    unfolding fl_positive [OF assms] by (intro mult_right_mono) simp_all
  moreover have "real_of_int (2 ^ 53) * 2 powi (?e - 52) = 2 powi (?e + 1)"
    using pow2_cancel [of 53 "?e + 1"] by (simp add: algebra_simps)
  ultimately show ?thesis by simp
qed

lemma fl_mono_positive:
  assumes "0 < x" and "x \<le> y"
  shows "fl x \<le> fl y"
proof (cases "binade x = binade y")
  case True
  have y: "0 < y" using assms by simp
  have "x * 2 powi (52 - binade y) \<le> y * 2 powi (52 - binade y)"
    using assms by (intro mult_right_mono) simp_all
  then have "round_half_even (x * 2 powi (52 - binade y)) \<le> round_half_even (y * 2 powi (52 - binade y))"
    by (rule round_half_even_mono)
  then have "real_of_int (round_half_even (x * 2 powi (52 - binade y)))
             \<le> real_of_int (round_half_even (y * 2 powi (52 - binade y)))"
    by (simp only: of_int_le_iff)
  then show ?thesis
    unfolding fl_positive [OF assms(1)] fl_positive [OF y] True
    by (intro mult_right_mono) simp_all
next
  case False
  have y: "0 < y" using assms by simp
  have "binade x \<le> binade y" using assms by (rule binade_mono)
  then have "binade x + 1 \<le> binade y" using False by simp
  then have "(2::real) powi (binade x + 1) \<le> 2 powi binade y"
    by (intro power_int_increasing) simp_all
  then show ?thesis
    using fl_upper [OF assms(1)] fl_lower [OF y] by linarith
qed

lemma fl_positive_sign: "0 < x \<Longrightarrow> 0 < fl x"
  using fl_lower [of x] pow2_pos [of "binade x"] by linarith

text \<open>Rounding to the nearest double is monotone.\<close>

lemma fl_mono:
  assumes "x \<le> y"
  shows "fl x \<le> fl y"
proof -
  consider (pp) "0 < x" | (zz) "x \<le> 0" "0 \<le> y" | (nn) "y < 0" using assms by linarith
  then show ?thesis
  proof cases
    case pp
    then show ?thesis using assms by (rule fl_mono_positive)
  next
    case zz
    have a: "fl x \<le> 0"
    proof (cases "x = 0")
      case True then show ?thesis by simp
    next
      case False
      then have "0 < - x" using zz by simp
      then have "0 < fl (- x)" by (rule fl_positive_sign)
      then show ?thesis by (simp add: fl_minus)
    qed
    have b: "0 \<le> fl y"
    proof (cases "y = 0")
      case True then show ?thesis by simp
    next
      case False
      then have "0 < y" using zz by simp
      then have "0 < fl y" by (rule fl_positive_sign)
      then show ?thesis by simp
    qed
    show ?thesis using a b by simp
  next
    case nn
    then have "0 < - y" "- y \<le> - x" using assms by simp_all
    then have "fl (- y) \<le> fl (- x)" by (rule fl_mono_positive)
    then show ?thesis by (simp add: fl_minus)
  qed
qed

text \<open>The relative error of rounding to a double is at most \<open>2 powi - 53\<close>.\<close>

lemma fl_error: "\<bar>fl x - x\<bar> \<le> \<bar>x\<bar> / 2 ^ 53"
proof -
  have pos: "\<bar>fl x - x\<bar> \<le> x / 2 ^ 53" if "0 < x" for x
  proof -
    let ?e = "binade x"
    let ?m = "real_of_int (round_half_even (x * 2 powi (52 - ?e)))"
    have "\<bar>?m - x * 2 powi (52 - ?e)\<bar> \<le> 1 / 2" by (rule round_half_even_close)
    then have "\<bar>?m - x * 2 powi (52 - ?e)\<bar> * 2 powi (?e - 52) \<le> 1 / 2 * 2 powi (?e - 52)"
      by (intro mult_right_mono) simp_all
    moreover have "\<bar>?m - x * 2 powi (52 - ?e)\<bar> * 2 powi (?e - 52) = \<bar>fl x - x\<bar>"
    proof -
      have "(?m - x * 2 powi (52 - ?e)) * 2 powi (?e - 52) =
            fl x - x * (2 powi (52 - ?e) * 2 powi (?e - 52))"
        unfolding fl_positive [OF that] by (simp add: algebra_simps)
      also have "2 powi (52 - ?e) * 2 powi (?e - 52) = (1::real)"
        using pow2_cancel [of "52 - ?e" 0] by simp
      finally have "(?m - x * 2 powi (52 - ?e)) * 2 powi (?e - 52) = fl x - x" by simp
      then have "\<bar>fl x - x\<bar> = \<bar>(?m - x * 2 powi (52 - ?e)) * 2 powi (?e - 52)\<bar>" by simp
      also have "\<dots> = \<bar>?m - x * 2 powi (52 - ?e)\<bar> * 2 powi (?e - 52)"
        by (simp add: abs_mult)
      finally show ?thesis by simp
    qed
    moreover have "1 / 2 * 2 powi (?e - 52) = (2::real) powi ?e / 2 ^ 53"
      by (simp add: power_int_diff)
    moreover have "2 powi ?e / 2 ^ 53 \<le> x / 2 ^ 53"
      using binade_bounds [OF that] by (simp add: divide_right_mono)
    ultimately show ?thesis by linarith
  qed
  consider "0 < x" | "x = 0" | "x < 0" by linarith
  then show ?thesis
  proof cases
    case 1
    then show ?thesis using pos [of x] by simp
  next
    case 2
    then show ?thesis by simp
  next
    case 3
    then have p: "0 < - x" by simp
    have "\<bar>fl x - x\<bar> = \<bar>fl (- x) - (- x)\<bar>" by (simp add: fl_minus abs_if)
    then show ?thesis using pos [OF p] 3 by simp
  qed
qed

text \<open>Evaluation of the float operations on concrete numbers.\<close>

lemmas float_eval =
  fl_def binade.simps round_half_even_def Let_def fadd_def fsub_def fmul_def uniform_def
  py_round_def sgn_if

lemma fl_boundary_constants:
  "fl 5 = 5" "fl 10 = 10" "fl 40 = 40" "fl 45 = 45" "fl 180 = 180" "fl 190 = 190"
  by (simp_all add: float_eval)

subsection \<open>Frame lemmas of the stages\<close>

lemma log_event_heart_rate [simp]: "heart_rate (log_event n m ty s) = heart_rate s"
  by (simp add: log_event_def Let_def)

lemma log_event_frame:
  "session_readings (log_event n m ty s) = session_readings s"
  "min_bpm (log_event n m ty s) = min_bpm s"
  "max_bpm (log_event n m ty s) = max_bpm s"
  "avg_bpm (log_event n m ty s) = avg_bpm s"
  "history (log_event n m ty s) = history s"
  "time_counter (log_event n m ty s) = time_counter s"
  "total_time (log_event n m ty s) = total_time s"
  "is_monitoring (log_event n m ty s) = is_monitoring s"
  "activity (log_event n m ty s) = activity s"
  "history_sessions (log_event n m ty s) = history_sessions s"
  by (simp_all add: log_event_def Let_def)

text \<open>
  Between two doubles whose difference is a double, \<^verbatim>\<open>random.uniform\<close> stays within the
  bounds, the rounding of its two operations included.
\<close>

lemma uniform_range:
  assumes u: "unit_draw u" and ab: "a \<le> b"
    and fa: "fl a = a" and fb: "fl b = b" and fd: "fl (b - a) = b - a"
  shows "a \<le> uniform a b u \<and> uniform a b u \<le> b"
proof -
  have "0 \<le> (b - a) * u" using u ab by (simp add: unit_draw_def)
  then have "fl 0 \<le> fl ((b - a) * u)" by (rule fl_mono)
  then have lo: "0 \<le> fl ((b - a) * u)" by simp
  have "(b - a) * u \<le> (b - a) * 1"
    using u ab by (intro mult_left_mono) (simp_all add: unit_draw_def)
  then have "fl ((b - a) * u) \<le> fl (b - a)" by (intro fl_mono) simp
  then have hi: "fl ((b - a) * u) \<le> b - a" unfolding fd .
  have "fl a \<le> fl (a + fl ((b - a) * u))" using lo by (intro fl_mono) simp
  moreover have "fl (a + fl ((b - a) * u)) \<le> fl b" using hi by (intro fl_mono) simp
  ultimately show ?thesis
    unfolding uniform_def fadd_def fmul_def fsub_def fd fa fb by simp
qed

lemma enforce_boundaries_heart_rate:
  "heart_rate (enforce_boundaries t s) = spec_clamped t (heart_rate s)"
  by (simp add: enforce_boundaries_def spec_clamped_def Let_def)

lemma apply_momentum_heart_rate:
  "heart_rate (apply_momentum p t s) = spec_smoothed p t (heart_rate s)"
  by (cases p) (simp add: apply_momentum_def spec_smoothed_def Let_def)

lemma update_session_stats_heart_rate [simp]:
  "heart_rate (update_session_stats s) = heart_rate s"
  by (simp add: update_session_stats_def Let_def)

lemma update_chart_history_heart_rate [simp]:
  "heart_rate (update_chart_history s) = heart_rate s"
  by (simp add: update_chart_history_def Let_def)

lemma heartbeat_animation_heart_rate [simp]:
  "heart_rate (heartbeat_animation s) = heart_rate s"
  by (simp add: heartbeat_animation_def)

lemma snd_step:
  "snd (step p on_update t s) =
     heartbeat_animation (update_chart_history (update_session_stats
       (enforce_boundaries t (apply_momentum p t s))))"
  by (simp add: step_def Let_def split: option.splits)

lemma step_heart_rate:
  "heart_rate (snd (step p on_update t s)) = spec_clamped t (spec_smoothed p t (heart_rate s))"
  by (simp add: snd_step enforce_boundaries_heart_rate apply_momentum_heart_rate)

lemma uniform_low:
  assumes "unit_draw u"
  shows "40 \<le> uniform 40 45 u \<and> uniform 40 45 u \<le> 45"
  using assms by (intro uniform_range) (simp_all add: fl_boundary_constants)

lemma uniform_high:
  assumes "unit_draw u"
  shows "180 \<le> uniform 180 190 u \<and> uniform 180 190 u \<le> 190"
  using assms by (intro uniform_range) (simp_all add: fl_boundary_constants)

lemma spec_clamped_range:
  assumes "unit_draw (u_redraw t)"
  shows "40 \<le> spec_clamped t v \<and> spec_clamped t v \<le> 190"
proof -
  show ?thesis
    using uniform_low [OF assms] uniform_high [OF assms] by (auto simp: spec_clamped_def)
qed

subsection \<open>Concrete steps\<close>

lemma running_profile: "get_profile ''Running'' = (130, 160, fl (4 / 10), fl 2)"
  by (simp add: get_profile_def activity_profiles_def)

lemma resting_profile: "get_profile ''Resting'' = (60, 80, fl (9 / 10), fl (5 / 10))"
  by (simp add: get_profile_def activity_profiles_def)

lemma example_draws:
  "u_target example_tick = 1 / 2" "u_noise example_tick = 1 / 2" "u_redraw example_tick = 1 / 2"
  by (simp_all add: example_tick_def)

lemma unit_draw_example: "unit_draw (u_redraw example_tick)"
  by (simp add: unit_draw_def example_tick_def)

lemma spec_smoothed_formula:
  "spec_smoothed (lo, hi, m, f) t hr =
     fl (py_round (fadd hr (fadd (fmul (fsub (uniform lo hi (u_target t)) hr) (fsub 1 m))
                                 (uniform (- f) f (u_noise t)))) 2)"
  by (simp add: spec_smoothed_def Let_def)

lemma running_from_72:
  "spec_smoothed (get_profile ''Running'') example_tick 72 = fl (1158 / 10)"
  by (simp add: running_profile spec_smoothed_formula example_draws float_eval)

lemma running_from_150:
  "spec_smoothed (get_profile ''Running'') example_tick 150 = 147"
  by (simp add: running_profile spec_smoothed_formula example_draws float_eval)

lemma resting_from_10:
  "spec_smoothed (get_profile ''Resting'') example_tick 10 = 16"
  by (simp add: resting_profile spec_smoothed_formula example_draws float_eval)

lemma resting_from_1000:
  "spec_smoothed (get_profile ''Resting'') example_tick 1000 = 907"
  by (simp add: resting_profile spec_smoothed_formula example_draws float_eval)

lemma resting_from_7045:
  "spec_smoothed (get_profile ''Resting'') example_tick (fl (7045 / 100)) = fl (7041 / 100)"
  by (simp add: resting_profile spec_smoothed_formula example_draws float_eval)

lemma resting_from_4025:
  "spec_smoothed (get_profile ''Resting'') example_tick (4025 / 100) = fl (4323 / 100)"
  by (simp add: resting_profile spec_smoothed_formula example_draws float_eval)

lemma gym_profile: "get_profile ''Gym'' = (110, 140, fl (5 / 10), fl (15 / 10))"
  by (simp add: get_profile_def activity_profiles_def)

lemma gym_seven_steps:
  "(spec_step (get_profile ''Gym'') example_tick ^^ 7) 72 = fl (12459 / 100)"
  by (simp add: gym_profile spec_step_def spec_clamped_def spec_smoothed_formula example_draws
      float_eval eval_nat_numeral)

lemma redraw_example:
  "uniform 40 45 (u_redraw example_tick) = 85 / 2"
  "uniform 180 190 (u_redraw example_tick) = 185"
  by (simp_all add: example_draws float_eval)

lemma clamped_inside: "40 \<le> v \<Longrightarrow> v \<le> 190 \<Longrightarrow> spec_clamped t v = v"
  by (simp add: spec_clamped_def)

lemma fl_1158_range: "40 \<le> fl (1158 / 10)" "fl (1158 / 10) \<le> 190"
  by (simp_all add: float_eval)

subsection \<open>C1: the heart rate after a step lies in [40, 190]\<close>

text \<open>
  C1. Whatever the state before the step, the profile and the draws for target and noise:
  when the re-draw value comes from the unit interval, the heart rate stored by one pass
  of the loop body is at least 40 and at most 190. When the smoothed and rounded value is
  below 40, the stored heart rate is the draw \<open>uniform 40 45\<close>, which is at most 45; when
  it is above 190, the stored heart rate is the draw \<open>uniform 180 190\<close>, which is at least
  180; otherwise the smoothed and rounded value is stored as it is.
\<close>

theorem heart_rate_clamped:
  assumes "unit_draw (u_redraw t)"
  shows "40 \<le> heart_rate (snd (step p on_update t s)) \<and>
         heart_rate (snd (step p on_update t s)) \<le> 190 \<and>
         (heart_rate (apply_momentum p t s) < 40 \<longrightarrow>
            heart_rate (snd (step p on_update t s)) = uniform 40 45 (u_redraw t) \<and>
            heart_rate (snd (step p on_update t s)) \<le> 45) \<and>
         (190 < heart_rate (apply_momentum p t s) \<longrightarrow>
            heart_rate (snd (step p on_update t s)) = uniform 180 190 (u_redraw t) \<and>
            180 \<le> heart_rate (snd (step p on_update t s))) \<and>
         (40 \<le> heart_rate (apply_momentum p t s) \<and> heart_rate (apply_momentum p t s) \<le> 190 \<longrightarrow>
            heart_rate (snd (step p on_update t s)) = heart_rate (apply_momentum p t s))"
proof -
  have e: "heart_rate (snd (step p on_update t s)) =
           spec_clamped t (heart_rate (apply_momentum p t s))"
    by (simp add: snd_step enforce_boundaries_heart_rate)
  show ?thesis
    unfolding e
    using spec_clamped_range [OF assms, of "heart_rate (apply_momentum p t s)"]
      uniform_low [OF assms] uniform_high [OF assms]
    by (simp add: spec_clamped_def)
qed

theorem heart_rate_clamped_witness:
  "unit_draw (u_redraw example_tick) \<and>
   heart_rate (apply_momentum (get_profile ''Resting'') example_tick
                 (init_state\<lparr>heart_rate := 10\<rparr>)) = 16 \<and>
   heart_rate (snd (step (get_profile ''Resting'') None example_tick
                     (init_state\<lparr>heart_rate := 10\<rparr>))) = 85 / 2 \<and>
   heart_rate (apply_momentum (get_profile ''Resting'') example_tick
                 (init_state\<lparr>heart_rate := 1000\<rparr>)) = 907 \<and>
   heart_rate (snd (step (get_profile ''Resting'') None example_tick
                     (init_state\<lparr>heart_rate := 1000\<rparr>))) = 185 \<and>
   heart_rate (apply_momentum (get_profile ''Running'') example_tick init_state) = fl (1158 / 10) \<and>
   heart_rate (snd (step (get_profile ''Running'') None example_tick init_state)) = fl (1158 / 10)"
proof -
  have h: "unit_draw (u_redraw example_tick)" by (rule unit_draw_example)
  have low: "heart_rate (apply_momentum (get_profile ''Resting'') example_tick
                 (init_state\<lparr>heart_rate := 10\<rparr>)) = 16"
    by (simp add: apply_momentum_heart_rate resting_from_10)
  have high: "heart_rate (apply_momentum (get_profile ''Resting'') example_tick
                 (init_state\<lparr>heart_rate := 1000\<rparr>)) = 907"
    by (simp add: apply_momentum_heart_rate resting_from_1000)
  have mid: "heart_rate (apply_momentum (get_profile ''Running'') example_tick init_state) = fl (1158 / 10)"
    by (simp add: apply_momentum_heart_rate init_state_def running_from_72)
  show ?thesis
    using h low high mid fl_1158_range
      heart_rate_clamped [OF h, of "get_profile ''Resting''" None "init_state\<lparr>heart_rate := 10\<rparr>"]
      heart_rate_clamped [OF h, of "get_profile ''Resting''" None "init_state\<lparr>heart_rate := 1000\<rparr>"]
      heart_rate_clamped [OF h, of "get_profile ''Running''" None init_state]
    by (simp add: redraw_example)
qed

subsection \<open>C5: \<open>log_event\<close> keeps the log a bounded, de-duplicated deque\<close>

lemma head_distinct_Cons:
  "head_distinct (e # ls) = (ls = [] \<or> \<not> (message e = message (hd ls) \<and> type e = type (hd ls)))"
  by (cases ls) (simp_all add: head_distinct_def)

lemma head_distinct_butlast:
  assumes "head_distinct ls" and "2 < length ls"
  shows "head_distinct (butlast ls)"
proof -
  obtain a b c rest where ls: "ls = a # b # c # rest"
    using assms(2) by (cases ls; cases "tl ls"; cases "tl (tl ls)") simp_all
  show ?thesis using assms(1) unfolding ls by (simp add: head_distinct_def)
qed

text \<open>
  C5. On a log of at most 100 entries whose first two entries differ in message or type:
  \<open>log_event\<close> leaves the log unchanged when message and type both equal those of the head
  entry; otherwise it puts the new entry at the head and keeps the first 100 entries, so
  the last one is dropped on overflow. In both cases the log still has at most 100
  entries and its entries at positions 0 and 1 still differ in message or type.
\<close>

theorem log_event_bounded_deque:
  assumes "length (logs s) \<le> 100" and "head_distinct (logs s)"
  shows "logs (log_event tm msg ty s) =
           (if logs s \<noteq> [] \<and> message (hd (logs s)) = msg \<and> type (hd (logs s)) = ty
            then logs s
            else take 100 (\<lparr> time = tm, message = msg, type = ty \<rparr> # logs s)) \<and>
         length (logs (log_event tm msg ty s)) \<le> 100 \<and>
         head_distinct (logs (log_event tm msg ty s))"
proof (cases "logs s \<noteq> [] \<and> message (hd (logs s)) = msg \<and> type (hd (logs s)) = ty")
  case True
  then have "log_event tm msg ty s = s" by (simp add: log_event_def)
  then show ?thesis using assms True by simp
next
  case False
  let ?e = "\<lparr> time = tm, message = msg, type = ty \<rparr>"
  let ?new = "logs (log_event tm msg ty s)"
  have hd: "head_distinct (?e # logs s)"
    using False by (auto simp: head_distinct_Cons)
  have new: "?new = (if length (?e # logs s) > 100 then butlast (?e # logs s) else ?e # logs s)"
    unfolding log_event_def if_not_P [OF False] by (simp add: Let_def)
  have c: "?new = take 100 (?e # logs s) \<and> length ?new \<le> 100 \<and> head_distinct ?new"
  proof (cases "length (logs s) = 100")
    case True
    have n: "?new = butlast (?e # logs s)" using new True by simp
    have "butlast (?e # logs s) = take 100 (?e # logs s)"
      using True by (simp add: butlast_conv_take)
    moreover have "head_distinct (butlast (?e # logs s))"
      using hd True by (intro head_distinct_butlast) simp_all
    moreover have "length (butlast (?e # logs s)) \<le> 100"
      using True by simp
    ultimately show ?thesis unfolding n by simp
  next
    case F2: False
    then have lt: "length (logs s) < 100" using assms(1) by simp
    then have n: "?new = ?e # logs s" using new by simp
    have "take 100 (?e # logs s) = ?e # logs s" using lt by simp
    then show ?thesis unfolding n using hd lt by simp
  qed
  show ?thesis unfolding if_not_P [OF False] using c by blast
qed

theorem log_event_bounded_deque_witness:
  "length (logs (init_state\<lparr>logs := [example_log]\<rparr>)) \<le> 100 \<and>
   head_distinct (logs (init_state\<lparr>logs := [example_log]\<rparr>)) \<and>
   logs (log_event ''12:00:00'' ''High HR boundary hit: 185 bpm'' ''ALERT''
          (init_state\<lparr>logs := [example_log]\<rparr>)) =
     [\<lparr> time = ''12:00:00'', message = ''High HR boundary hit: 185 bpm'', type = ''ALERT'' \<rparr>,
      example_log] \<and>
   logs (log_event ''12:00:00'' ''Low HR boundary hit: 42 bpm'' ''ALERT''
          (init_state\<lparr>logs := [example_log]\<rparr>)) = [example_log]"
proof -
  let ?s = "init_state\<lparr>logs := [example_log]\<rparr>"
  have h1: "length (logs ?s) \<le> 100" by simp
  have h2: "head_distinct (logs ?s)" by (simp add: head_distinct_def)
  show ?thesis
    using h1 h2
      log_event_bounded_deque [OF h1 h2, of "''12:00:00''" "''High HR boundary hit: 185 bpm''" "''ALERT''"]
      log_event_bounded_deque [OF h1 h2, of "''12:00:00''" "''Low HR boundary hit: 42 bpm''" "''ALERT''"]
    by (simp add: example_log_def)
qed

lemma apply_momentum_frame [simp]:
  "is_monitoring (apply_momentum p t s) = is_monitoring s"
  "activity (apply_momentum p t s) = activity s"
  "history_sessions (apply_momentum p t s) = history_sessions s"
  "session_readings (apply_momentum p t s) = session_readings s"
  "min_bpm (apply_momentum p t s) = min_bpm s"
  "max_bpm (apply_momentum p t s) = max_bpm s"
  "avg_bpm (apply_momentum p t s) = avg_bpm s"
  "history (apply_momentum p t s) = history s"
  "time_counter (apply_momentum p t s) = time_counter s"
  "total_time (apply_momentum p t s) = total_time s"
  "logs (apply_momentum p t s) = logs s"
  by (simp_all add: apply_momentum_def Let_def split: prod.splits)

lemma enforce_boundaries_frame [simp]:
  "is_monitoring (enforce_boundaries t s) = is_monitoring s"
  "activity (enforce_boundaries t s) = activity s"
  "history_sessions (enforce_boundaries t s) = history_sessions s"
  "session_readings (enforce_boundaries t s) = session_readings s"
  "min_bpm (enforce_boundaries t s) = min_bpm s"
  "max_bpm (enforce_boundaries t s) = max_bpm s"
  "avg_bpm (enforce_boundaries t s) = avg_bpm s"
  "history (enforce_boundaries t s) = history s"
  "time_counter (enforce_boundaries t s) = time_counter s"
  "total_time (enforce_boundaries t s) = total_time s"
  by (simp_all add: enforce_boundaries_def Let_def log_event_frame)

lemma update_session_stats_frame [simp]:
  "is_monitoring (update_session_stats s) = is_monitoring s"
  "activity (update_session_stats s) = activity s"
  "history_sessions (update_session_stats s) = history_sessions s"
  "history (update_session_stats s) = history s"
  "time_counter (update_session_stats s) = time_counter s"
  "total_time (update_session_stats s) = total_time s"
  "logs (update_session_stats s) = logs s"
  by (simp_all add: update_session_stats_def Let_def)

lemma update_session_stats_fields:
  "session_readings (update_session_stats s) = session_readings s @ [heart_rate s]"
  "min_bpm (update_session_stats s) = min (min_bpm s) (heart_rate s)"
  "max_bpm (update_session_stats s) = max (max_bpm s) (heart_rate s)"
  "avg_bpm (update_session_stats s) =
     sum_list (session_readings s @ [heart_rate s]) / of_nat (length (session_readings s @ [heart_rate s]))"
  by (simp_all add: update_session_stats_def Let_def)

lemma update_chart_history_frame [simp]:
  "is_monitoring (update_chart_history s) = is_monitoring s"
  "activity (update_chart_history s) = activity s"
  "history_sessions (update_chart_history s) = history_sessions s"
  "session_readings (update_chart_history s) = session_readings s"
  "min_bpm (update_chart_history s) = min_bpm s"
  "max_bpm (update_chart_history s) = max_bpm s"
  "avg_bpm (update_chart_history s) = avg_bpm s"
  "logs (update_chart_history s) = logs s"
  by (simp_all add: update_chart_history_def Let_def)

lemma update_chart_history_fields:
  "time_counter (update_chart_history s) = time_counter s + 1"
  "total_time (update_chart_history s) = total_time s + 1"
  "history (update_chart_history s) =
     (let h = history s @ [(time_counter s + 1, heart_rate s)]
      in if length h > 60 then tl h else h)"
  by (simp_all add: update_chart_history_def Let_def)

lemma heartbeat_animation_frame [simp]:
  "is_monitoring (heartbeat_animation s) = is_monitoring s"
  "activity (heartbeat_animation s) = activity s"
  "history_sessions (heartbeat_animation s) = history_sessions s"
  "session_readings (heartbeat_animation s) = session_readings s"
  "min_bpm (heartbeat_animation s) = min_bpm s"
  "max_bpm (heartbeat_animation s) = max_bpm s"
  "avg_bpm (heartbeat_animation s) = avg_bpm s"
  "history (heartbeat_animation s) = history s"
  "time_counter (heartbeat_animation s) = time_counter s"
  "total_time (heartbeat_animation s) = total_time s"
  "logs (heartbeat_animation s) = logs s"
  by (simp_all add: heartbeat_animation_def)

lemma step_frame [simp]:
  "is_monitoring (snd (step p on_update t s)) = is_monitoring s"
  "activity (snd (step p on_update t s)) = activity s"
  "history_sessions (snd (step p on_update t s)) = history_sessions s"
  by (simp_all add: snd_step)

lemma stop_monitoring_frame [simp]:
  "heart_rate (fst (stop_monitoring d s)) = heart_rate s"
  "session_readings (fst (stop_monitoring d s)) = session_readings s"
  "min_bpm (fst (stop_monitoring d s)) = min_bpm s"
  "max_bpm (fst (stop_monitoring d s)) = max_bpm s"
  "avg_bpm (fst (stop_monitoring d s)) = avg_bpm s"
  "history (fst (stop_monitoring d s)) = history s"
  "time_counter (fst (stop_monitoring d s)) = time_counter s"
  "total_time (fst (stop_monitoring d s)) = total_time s"
  "logs (fst (stop_monitoring d s)) = logs s"
  "activity (fst (stop_monitoring d s)) = activity s"
  "is_monitoring (fst (stop_monitoring d s)) = False"
  by (simp_all add: stop_monitoring_def Let_def)

lemma running_start_simps:
  "is_monitoring running_start" "activity running_start = ''Running''"
  "heart_rate running_start = 72" "session_readings running_start = []"
  by (simp_all add: running_start_def start_monitoring_def init_state_def)

subsection \<open>C6: \<open>stop_monitoring\<close> records a summary exactly for a non-empty session\<close>

text \<open>
  C6. \<open>stop_monitoring\<close> sets \<open>is_monitoring\<close> to false. When \<open>session_readings\<close> is empty it
  leaves \<open>history_sessions\<close> as it is; when \<open>session_readings\<close> is non-empty it appends one
  summary at the end. So \<open>history_sessions\<close> changes if and only if the session has a reading.
\<close>

theorem stop_monitoring_summary:
  "is_monitoring (fst (stop_monitoring d s)) = False \<and>
   (session_readings s = [] \<longrightarrow>
      history_sessions (fst (stop_monitoring d s)) = history_sessions s) \<and>
   (session_readings s \<noteq> [] \<longrightarrow>
      (\<exists>summary. history_sessions (fst (stop_monitoring d s)) = history_sessions s @ [summary])) \<and>
   ((history_sessions (fst (stop_monitoring d s)) \<noteq> history_sessions s) = (session_readings s \<noteq> []))"
  by (simp add: stop_monitoring_def Let_def)

theorem stop_monitoring_summary_witness:
  "session_readings init_state = [] \<and>
   history_sessions (fst (stop_monitoring ''2024-01-01 10:00'' init_state)) = history_sessions init_state \<and>
   session_readings monitoring_state \<noteq> [] \<and>
   (\<exists>summary. history_sessions (fst (stop_monitoring ''2024-01-01 10:00'' monitoring_state)) =
        history_sessions monitoring_state @ [summary]) \<and>
   is_monitoring (fst (stop_monitoring ''2024-01-01 10:00'' monitoring_state)) = False"
proof -
  have e: "session_readings init_state = []" by (simp add: init_state_def)
  have n: "session_readings monitoring_state \<noteq> []"
    by (simp add: monitoring_state_def snd_step heartbeat_animation_def update_chart_history_def
        update_session_stats_def Let_def)
  show ?thesis
    using e n stop_monitoring_summary [of "''2024-01-01 10:00''" init_state]
      stop_monitoring_summary [of "''2024-01-01 10:00''" monitoring_state]
    by simp
qed

subsection \<open>The loop, one iteration at a time\<close>

lemma start_monitoring_frame [simp]:
  "heart_rate (fst (start_monitoring s)) = heart_rate s"
  "activity (fst (start_monitoring s)) = activity s"
  "history_sessions (fst (start_monitoring s)) = history_sessions s"
  by (simp_all add: start_monitoring_def)

lemma simulation_loop_exit:
  "\<not> is_monitoring s \<Longrightarrow> simulation_loop p on_update ts s = (Exited, s, [])"
  by (cases ts) (simp_all add: simulation_loop.simps)

lemma simulation_loop_fault:
  "is_monitoring s \<Longrightarrow> fst (step p on_update t s) = Some e \<Longrightarrow>
   simulation_loop p on_update (t # ts) s =
     (Faulted, snd (step p on_update t s), [Printed (''Simulation Error: '' @ e), Traceback e])"
  by (cases "step p on_update t s") (simp add: simulation_loop.simps)

lemma simulation_loop_continue:
  "is_monitoring s \<Longrightarrow> fst (step p on_update t s) = None \<Longrightarrow>
   simulation_loop p on_update (t # ts) s =
     simulation_loop p on_update ts (during_sleep t (snd (step p on_update t s)))"
  by (cases "step p on_update t s") (simp add: simulation_loop.simps)

lemma during_sleep_frame [simp]:
  "heart_rate (during_sleep t s) = heart_rate s"
  "session_readings (during_sleep t s) = session_readings s"
  "min_bpm (during_sleep t s) = min_bpm s"
  "max_bpm (during_sleep t s) = max_bpm s"
  "avg_bpm (during_sleep t s) = avg_bpm s"
  "history (during_sleep t s) = history s"
  "time_counter (during_sleep t s) = time_counter s"
  by (simp_all add: during_sleep_def split: option.splits)

lemma simulation_loop_single:
  assumes "is_monitoring s"
  shows "heart_rate (fst (snd (simulation_loop p on_update [t] s))) =
         heart_rate (snd (step p on_update t s))"
proof (cases "fst (step p on_update t s)")
  case None
  show ?thesis
    unfolding simulation_loop_continue [OF assms None]
    by (simp add: simulation_loop.simps)
next
  case (Some e)
  show ?thesis
    unfolding simulation_loop_fault [OF assms Some] by simp
qed

subsection \<open>C2: the update formula of a step\<close>

lemma spec_trajectory_simps:
  "spec_trajectory p [] h = h"
  "spec_trajectory p (t # ts) h = spec_trajectory p ts (spec_step p t h)"
  by (simp_all add: spec_trajectory_def)

lemma spec_trajectory_replicate:
  "spec_trajectory p (replicate n t) h = (spec_step p t ^^ n) h"
  by (induction n arbitrary: h) (simp_all add: spec_trajectory_simps funpow_swap1)

lemma simulation_loop_trajectory:
  "fst (simulation_loop p on_update ts s) = Sleeping \<Longrightarrow>
   heart_rate (fst (snd (simulation_loop p on_update ts s))) = spec_trajectory p ts (heart_rate s)"
proof (induction ts arbitrary: s)
  case Nil
  then show ?case by (simp add: simulation_loop.simps spec_trajectory_simps)
next
  case (Cons t ts)
  show ?case
  proof (cases "is_monitoring s")
    case False
    then show ?thesis using Cons.prems by (simp add: simulation_loop_exit)
  next
    case True
    show ?thesis
    proof (cases "fst (step p on_update t s)")
      case (Some e)
      show ?thesis using Cons.prems
        unfolding simulation_loop_fault [OF True Some] by simp
    next
      case None
      show ?thesis
        using Cons.IH [of "during_sleep t (snd (step p on_update t s))"] Cons.prems
        unfolding simulation_loop_continue [OF True None]
        by (simp add: step_heart_rate spec_trajectory_simps spec_step_def)
    qed
  qed
qed

lemma simulation_loop_sleeping:
  "is_monitoring s \<Longrightarrow> \<forall>t \<in> set ts. stop_pressed t = None \<Longrightarrow>
   fst (simulation_loop p None ts s) = Sleeping"
proof (induction ts arbitrary: s)
  case Nil
  then show ?case by (simp add: simulation_loop.simps)
next
  case (Cons t ts)
  have n: "fst (step p None t s) = None" by (simp add: step_def Let_def)
  have d: "during_sleep t (snd (step p None t s)) = snd (step p None t s)"
    using Cons.prems(2) by (simp add: during_sleep_def)
  have m: "is_monitoring (snd (step p None t s))" using Cons.prems(1) by simp
  show ?case
    unfolding simulation_loop_continue [OF Cons.prems(1) n] d
    using Cons.prems(2) by (intro Cons.IH m) simp
qed

lemma gym_start_simps:
  "is_monitoring gym_start" "activity gym_start = ''Gym''" "heart_rate gym_start = 72"
  by (simp_all add: gym_start_def start_monitoring_def init_state_def)

text \<open>
  C2. The momentum stage stores the value of \<open>heartRate + (targetHr - heartRate) *
  (1 - momentum) + noise\<close>, computed on floats and rounded to two decimals, with \<open>targetHr\<close>
  drawn between the first two components of the profile and \<open>noise\<close> between minus and
  plus its fluctuation; the rounding precedes the boundary stage, so the heart rate
  after the whole step is the boundary rule applied to that rounded value. With the
  draws fixed, the stepped value depends on the previous heart rate and the profile only:
  two states that agree on the heart rate step to the same heart rate, whatever their
  other fields and whatever callback is registered. The same holds for a sequence of
  draws: when the task has consumed the inputs \<open>ts\<close> and is still running, the heart rate
  is the result of the specification's steps applied in order to the heart rate before
  the run.
\<close>

theorem step_formula:
  "heart_rate (apply_momentum p t s) = spec_smoothed p t (heart_rate s) \<and>
   heart_rate (snd (step p on_update t s)) = spec_clamped t (spec_smoothed p t (heart_rate s)) \<and>
   (heart_rate s = heart_rate s' \<longrightarrow>
      heart_rate (snd (step p on_update t s)) = heart_rate (snd (step p on_update' t s'))) \<and>
   (fst (simulation_loop p on_update ts s) = Sleeping \<longrightarrow>
      heart_rate (fst (snd (simulation_loop p on_update ts s))) =
        spec_trajectory p ts (heart_rate s))"
  using simulation_loop_trajectory [of p on_update ts s]
  by (simp add: step_heart_rate apply_momentum_heart_rate)

theorem step_formula_witness:
  "heart_rate init_state = heart_rate (init_state\<lparr>activity := ''Running''\<rparr>) \<and>
   heart_rate (snd (step (get_profile ''Running'') None example_tick init_state)) =
   heart_rate (snd (step (get_profile ''Running'') (Some (\<lambda>_. None)) example_tick
                     (init_state\<lparr>activity := ''Running''\<rparr>))) \<and>
   heart_rate (snd (step (get_profile ''Running'') None example_tick init_state)) = fl (1158 / 10) \<and>
   heart_rate (apply_momentum (get_profile ''Resting'') example_tick
                 (init_state\<lparr>heart_rate := fl (7045 / 100)\<rparr>)) = fl (7041 / 100) \<and>
   heart_rate (apply_momentum (get_profile ''Resting'') example_tick
                 (init_state\<lparr>heart_rate := 4025 / 100\<rparr>)) = fl (4323 / 100) \<and>
   fst (run_simulation None (replicate 7 example_tick) gym_start) = Sleeping \<and>
   heart_rate (fst (snd (run_simulation None (replicate 7 example_tick) gym_start))) =
     fl (12459 / 100)"
proof -
  have v: "spec_clamped example_tick (spec_smoothed (get_profile ''Running'') example_tick 72) =
           fl (1158 / 10)"
    unfolding running_from_72 using fl_1158_range by (rule clamped_inside)
  have sl: "fst (simulation_loop (get_profile ''Gym'') None (replicate 7 example_tick) gym_start) =
            Sleeping"
    by (intro simulation_loop_sleeping) (simp_all add: gym_start_simps example_tick_def)
  have a: "heart_rate init_state = heart_rate (init_state\<lparr>activity := ''Running''\<rparr>)"
    by simp
  note running = step_formula [where p = "get_profile ''Running''" and t = example_tick
      and s = init_state and on_update = None
      and s' = "init_state\<lparr>activity := ''Running''\<rparr>" and on_update' = "Some (\<lambda>_. None)"
      and ts = "[]"]
  note resting1 = step_formula [where p = "get_profile ''Resting''" and t = example_tick
      and s = "init_state\<lparr>heart_rate := fl (7045 / 100)\<rparr>" and on_update = None
      and s' = init_state and on_update' = None and ts = "[]", THEN conjunct1]
  note resting2 = step_formula [where p = "get_profile ''Resting''" and t = example_tick
      and s = "init_state\<lparr>heart_rate := 4025 / 100\<rparr>" and on_update = None
      and s' = init_state and on_update' = None and ts = "[]", THEN conjunct1]
  note gym = step_formula [where p = "get_profile ''Gym''" and t = example_tick
      and s = gym_start and on_update = None and s' = gym_start and on_update' = None
      and ts = "replicate 7 example_tick", THEN conjunct2, THEN conjunct2, THEN conjunct2,
      THEN mp, OF sl]
  have c1: "heart_rate (snd (step (get_profile ''Running'') None example_tick init_state)) =
        heart_rate (snd (step (get_profile ''Running'') (Some (\<lambda>_. None)) example_tick
                     (init_state\<lparr>activity := ''Running''\<rparr>)))"
    using running a by blast
  have c2: "heart_rate (snd (step (get_profile ''Running'') None example_tick init_state)) =
        fl (1158 / 10)"
    using running [THEN conjunct2, THEN conjunct1] v by (simp add: init_state_def)
  have c3: "heart_rate (apply_momentum (get_profile ''Resting'') example_tick
                 (init_state\<lparr>heart_rate := fl (7045 / 100)\<rparr>)) = fl (7041 / 100)"
    using resting1 resting_from_7045 by simp
  have c4: "heart_rate (apply_momentum (get_profile ''Resting'') example_tick
                 (init_state\<lparr>heart_rate := 4025 / 100\<rparr>)) = fl (4323 / 100)"
    using resting2 resting_from_4025 by simp
  have c5: "heart_rate (fst (snd (run_simulation None (replicate 7 example_tick) gym_start))) =
        fl (12459 / 100)"
    unfolding run_simulation_def gym_start_simps gym spec_trajectory_replicate
    by (rule gym_seven_steps)
  have c6: "fst (run_simulation None (replicate 7 example_tick) gym_start) = Sleeping"
    unfolding run_simulation_def gym_start_simps by (rule sl)
  show ?thesis by (intro conjI a c1 c2 c3 c4 c6 c5)
qed

subsection \<open>C10: starting a session does not reset the heart rate\<close>

text \<open>
  C10. A fresh \<open>MonitorState\<close> has heart rate 72. \<open>start_monitoring\<close> never changes the heart
  rate. When the activity is set, it resets \<open>min_bpm\<close>, \<open>max_bpm\<close>, \<open>avg_bpm\<close>, \<open>total_time\<close>,
  \<open>session_readings\<close>, \<open>history\<close>, \<open>time_counter\<close> and \<open>logs\<close>, and the first iteration of
  the simulation started afterwards smooths from the heart rate that the state held
  before the start, under the profile of the selected activity.
\<close>

theorem start_monitoring_keeps_heart_rate:
  "heart_rate init_state = 72 \<and>
   heart_rate (fst (start_monitoring s)) = heart_rate s \<and>
   (activity s \<noteq> [] \<longrightarrow>
      min_bpm (fst (start_monitoring s)) = 999 \<and>
      max_bpm (fst (start_monitoring s)) = 0 \<and>
      avg_bpm (fst (start_monitoring s)) = 0 \<and>
      total_time (fst (start_monitoring s)) = 0 \<and>
      session_readings (fst (start_monitoring s)) = [] \<and>
      history (fst (start_monitoring s)) = [] \<and>
      time_counter (fst (start_monitoring s)) = 0 \<and>
      logs (fst (start_monitoring s)) = [] \<and>
      heart_rate (fst (snd (run_simulation on_update [t] (fst (start_monitoring s))))) =
        spec_clamped t (spec_smoothed (get_profile (activity s)) t (heart_rate s)))"
proof -
  have a: "heart_rate init_state = 72" by (simp add: init_state_def)
  have b: "heart_rate (fst (start_monitoring s)) = heart_rate s" by simp
  have c: "activity s \<noteq> [] \<Longrightarrow>
      min_bpm (fst (start_monitoring s)) = 999 \<and>
      max_bpm (fst (start_monitoring s)) = 0 \<and>
      avg_bpm (fst (start_monitoring s)) = 0 \<and>
      total_time (fst (start_monitoring s)) = 0 \<and>
      session_readings (fst (start_monitoring s)) = [] \<and>
      history (fst (start_monitoring s)) = [] \<and>
      time_counter (fst (start_monitoring s)) = 0 \<and>
      logs (fst (start_monitoring s)) = []"
    by (simp add: start_monitoring_def)
  have d: "heart_rate (fst (snd (run_simulation on_update [t] (fst (start_monitoring s))))) =
        spec_clamped t (spec_smoothed (get_profile (activity s)) t (heart_rate s))"
    if "activity s \<noteq> []"
  proof -
    have m: "is_monitoring (fst (start_monitoring s))"
      using that by (simp add: start_monitoring_def)
    show ?thesis
      unfolding run_simulation_def
      by (simp add: simulation_loop_single [OF m] step_heart_rate)
  qed
  show ?thesis using a b c d by blast
qed

theorem start_monitoring_keeps_heart_rate_witness:
  "activity (monitoring_state\<lparr>heart_rate := 150\<rparr>) \<noteq> [] \<and>
   heart_rate (fst (start_monitoring (monitoring_state\<lparr>heart_rate := 150\<rparr>))) = 150 \<and>
   session_readings (fst (start_monitoring (monitoring_state\<lparr>heart_rate := 150\<rparr>))) = [] \<and>
   heart_rate (fst (snd (run_simulation None [example_tick]
        (fst (start_monitoring (monitoring_state\<lparr>heart_rate := 150\<rparr>)))))) = 147"
proof -
  let ?s = "monitoring_state\<lparr>heart_rate := 150\<rparr>"
  have act: "activity ?s = ''Running''"
    by (simp add: monitoring_state_def running_start_simps)
  have v: "spec_clamped example_tick (spec_smoothed (get_profile ''Running'') example_tick 150) = 147"
    unfolding running_from_150 by (rule clamped_inside) simp_all
  show ?thesis
    using act v start_monitoring_keeps_heart_rate [of ?s None example_tick]
    by simp
qed

subsection \<open>C8: a start while monitoring\<close>

text \<open>
  C8, refuted as stated. In the state of a running session (one iteration done, its task
  asleep, \<open>is_monitoring\<close> true) a second \<open>start_monitoring\<close> is neither a no-op nor
  rejected: it requests \<open>page.run_task(run_simulation)\<close> again and it changes the state.
\<close>

theorem start_monitoring_second_task_counterexample:
  "is_monitoring monitoring_state \<and>
   snd (start_monitoring monitoring_state) = [RunTask, Go ''/monitor''] \<and>
   fst (start_monitoring monitoring_state) \<noteq> monitoring_state"
proof -
  have m: "is_monitoring monitoring_state" "activity monitoring_state = ''Running''"
    by (simp_all add: monitoring_state_def running_start_simps)
  have r: "session_readings monitoring_state \<noteq> []"
    by (simp add: monitoring_state_def snd_step update_session_stats_fields)
  have "session_readings (fst (start_monitoring monitoring_state)) = []"
    using m by (simp add: start_monitoring_def)
  then have "fst (start_monitoring monitoring_state) \<noteq> monitoring_state"
    using r by auto
  then show ?thesis using m by (simp add: start_monitoring_def)
qed

text \<open>
  C8, amended. \<open>start_monitoring\<close> tests the activity only. With a non-empty activity it
  requests a new stepping task and the navigation to the monitor page, sets
  \<open>is_monitoring\<close>, and resets the session fields: \<open>min_bpm\<close> to 999, \<open>max_bpm\<close>, \<open>avg_bpm\<close>,
  \<open>total_time\<close> and \<open>time_counter\<close> to 0, \<open>session_readings\<close>, \<open>history\<close> and \<open>logs\<close> to the
  empty list; every other field keeps its value. Its result is the same whether
  \<open>is_monitoring\<close> was true or false before. With an empty activity it does nothing.
\<close>

theorem start_monitoring_unguarded:
  "(activity s \<noteq> [] \<longrightarrow>
      snd (start_monitoring s) = [RunTask, Go ''/monitor''] \<and>
      is_monitoring (fst (start_monitoring s)) \<and>
      min_bpm (fst (start_monitoring s)) = 999 \<and>
      max_bpm (fst (start_monitoring s)) = 0 \<and>
      avg_bpm (fst (start_monitoring s)) = 0 \<and>
      total_time (fst (start_monitoring s)) = 0 \<and>
      session_readings (fst (start_monitoring s)) = [] \<and>
      history (fst (start_monitoring s)) = [] \<and>
      time_counter (fst (start_monitoring s)) = 0 \<and>
      logs (fst (start_monitoring s)) = [] \<and>
      fst (start_monitoring s) =
        s\<lparr> is_monitoring := True, min_bpm := 999, max_bpm := 0, avg_bpm := 0, total_time := 0,
           session_readings := [], history := [], time_counter := 0, logs := [] \<rparr> \<and>
      start_monitoring (s\<lparr>is_monitoring := True\<rparr>) = start_monitoring (s\<lparr>is_monitoring := False\<rparr>)) \<and>
   (activity s = [] \<longrightarrow> start_monitoring s = (s, []))"
  by (simp add: start_monitoring_def)

theorem start_monitoring_unguarded_witness:
  "activity monitoring_state \<noteq> [] \<and> is_monitoring monitoring_state \<and>
   session_readings monitoring_state \<noteq> [] \<and>
   time_counter monitoring_state = 1 \<and> total_time monitoring_state = 1 \<and>
   length (history monitoring_state) = 1 \<and>
   snd (start_monitoring monitoring_state) = [RunTask, Go ''/monitor''] \<and>
   is_monitoring (fst (start_monitoring monitoring_state)) \<and>
   session_readings (fst (start_monitoring monitoring_state)) = [] \<and>
   time_counter (fst (start_monitoring monitoring_state)) = 0 \<and>
   total_time (fst (start_monitoring monitoring_state)) = 0 \<and>
   history (fst (start_monitoring monitoring_state)) = [] \<and>
   min_bpm (fst (start_monitoring monitoring_state)) = 999 \<and>
   max_bpm (fst (start_monitoring monitoring_state)) = 0 \<and>
   activity init_state = [] \<and> start_monitoring init_state = (init_state, [])"
proof -
  have m: "is_monitoring monitoring_state" "activity monitoring_state = ''Running''"
    by (simp_all add: monitoring_state_def running_start_simps)
  have r: "session_readings monitoring_state \<noteq> []"
    by (simp add: monitoring_state_def snd_step update_session_stats_fields)
  have c: "time_counter monitoring_state = 1" "total_time monitoring_state = 1"
    "length (history monitoring_state) = 1"
    by (simp_all add: monitoring_state_def snd_step update_chart_history_fields
        running_start_def start_monitoring_def init_state_def)
  have i: "activity init_state = []" by (simp add: init_state_def)
  show ?thesis
    using m r c i start_monitoring_unguarded [of monitoring_state]
      start_monitoring_unguarded [of init_state]
    by simp
qed

subsection \<open>C9: an exception raised during a step\<close>

lemma simulation_loop_faulted:
  "fst (simulation_loop p on_update us s) = Faulted \<Longrightarrow>
     is_monitoring (fst (snd (simulation_loop p on_update us s))) \<and>
     (\<exists>e. snd (snd (simulation_loop p on_update us s)) =
            [Printed (''Simulation Error: '' @ e), Traceback e])"
proof (induction us arbitrary: s)
  case Nil
  then show ?case by (simp add: simulation_loop.simps split: if_splits)
next
  case (Cons t us)
  show ?case
  proof (cases "is_monitoring s")
    case False
    with Cons.prems show ?thesis by (simp add: simulation_loop_exit)
  next
    case True
    show ?thesis
    proof (cases "fst (step p on_update t s)")
      case (Some e)
      show ?thesis
        unfolding simulation_loop_fault [OF True Some] using True by simp
    next
      case None
      show ?thesis
        using Cons.IH [of "during_sleep t (snd (step p on_update t s))"] Cons.prems
        unfolding simulation_loop_continue [OF True None] by simp
    qed
  qed
qed

text \<open>
  C9. When the loop is monitoring and the step raises (the refresh callback is the call in
  the body that can), \<open>run_simulation\<close> returns normally: the status is \<open>Faulted\<close>, the
  diagnostic \<open>Simulation Error: e\<close> and the traceback are printed, the remaining inputs
  are not consumed, and the state is the one the step left, with \<open>is_monitoring\<close> as it
  was. Whenever a run of the loop ends in \<open>Faulted\<close>, \<open>is_monitoring\<close> is still true in its
  final state.
\<close>

theorem simulation_fault_caught:
  "(is_monitoring s \<and> fst (step p on_update t s) = Some e \<longrightarrow>
      simulation_loop p on_update (t # ts) s =
        (Faulted, snd (step p on_update t s), [Printed (''Simulation Error: '' @ e), Traceback e]) \<and>
      is_monitoring (snd (step p on_update t s)) = is_monitoring s) \<and>
   (fst (simulation_loop p on_update us s) = Faulted \<longrightarrow>
      is_monitoring (fst (snd (simulation_loop p on_update us s))) \<and>
      (\<exists>e'. snd (snd (simulation_loop p on_update us s)) =
            [Printed (''Simulation Error: '' @ e'), Traceback e']))"
proof -
  have a: "simulation_loop p on_update (t # ts) s =
        (Faulted, snd (step p on_update t s), [Printed (''Simulation Error: '' @ e), Traceback e])"
    if "is_monitoring s" "fst (step p on_update t s) = Some e"
    using that by (rule simulation_loop_fault)
  show ?thesis using a simulation_loop_faulted [of p on_update us s] by simp
qed

theorem simulation_fault_caught_witness:
  "is_monitoring running_start \<and>
   fst (step (get_profile ''Running'') (Some failing_callback) example_tick running_start)
     = Some ''control detached'' \<and>
   fst (run_simulation (Some failing_callback) [example_tick, example_tick] running_start) = Faulted \<and>
   is_monitoring (fst (snd (run_simulation (Some failing_callback) [example_tick, example_tick] running_start))) \<and>
   snd (snd (run_simulation (Some failing_callback) [example_tick, example_tick] running_start)) =
     [Printed ''Simulation Error: control detached'', Traceback ''control detached'']"
proof -
  have m: "is_monitoring running_start" by (simp add: running_start_simps)
  have f: "fst (step (get_profile ''Running'') (Some failing_callback) example_tick running_start)
     = Some ''control detached''"
    by (simp add: step_def Let_def failing_callback_def)
  show ?thesis
    using m f simulation_fault_caught [of running_start "get_profile ''Running''"
        "Some failing_callback" example_tick "''control detached''" "[example_tick]" "[]"]
    by (simp add: run_simulation_def running_start_simps)
qed

subsection \<open>Invariants of a session\<close>

lemma simulation_loop_invariant:
  assumes step: "\<And>t s. I s \<Longrightarrow> I (snd (step p on_update t s))"
    and sleep: "\<And>t s. I s \<Longrightarrow> I (during_sleep t s)"
    and init: "I s"
  shows "I (fst (snd (simulation_loop p on_update ts s)))"
  using init
proof (induction ts arbitrary: s)
  case Nil
  then show ?case by (simp add: simulation_loop.simps)
next
  case (Cons t ts)
  show ?case
  proof (cases "is_monitoring s")
    case False
    then show ?thesis using Cons.prems by (simp add: simulation_loop_exit)
  next
    case True
    show ?thesis
    proof (cases "fst (step p on_update t s)")
      case (Some e)
      show ?thesis
        unfolding simulation_loop_fault [OF True Some] using step [OF Cons.prems] by simp
    next
      case None
      show ?thesis
        unfolding simulation_loop_continue [OF True None]
        by (rule Cons.IH) (rule sleep, rule step, rule Cons.prems)
    qed
  qed
qed

lemma step_session_fields:
  "session_readings (snd (step p on_update t s)) =
     session_readings s @ [heart_rate (snd (step p on_update t s))]"
  "min_bpm (snd (step p on_update t s)) = min (min_bpm s) (heart_rate (snd (step p on_update t s)))"
  "max_bpm (snd (step p on_update t s)) = max (max_bpm s) (heart_rate (snd (step p on_update t s)))"
  "avg_bpm (snd (step p on_update t s)) =
     sum_list (session_readings (snd (step p on_update t s))) /
       of_nat (length (session_readings (snd (step p on_update t s))))"
  by (simp_all add: snd_step update_session_stats_fields)

lemma step_chart_fields:
  "time_counter (snd (step p on_update t s)) = time_counter s + 1"
  "total_time (snd (step p on_update t s)) = total_time s + 1"
  "history (snd (step p on_update t s)) =
     (let h = history s @ [(time_counter s + 1, heart_rate (snd (step p on_update t s)))]
      in if length h > 60 then tl h else h)"
  by (simp_all add: snd_step update_chart_history_fields)





lemma ticks_length: "length (map int [1..<Suc n]) = n"
  by (simp del: upt_Suc)

lemma ticks_snoc: "map int [1..<Suc (Suc n)] = map int [1..<Suc n] @ [int n + 1]"
  by simp

lemma window_snoc:
  "(let h = drop (length xs - 60) xs @ [y] in if length h > 60 then tl h else h) =
   drop (Suc (length xs) - 60) (xs @ [y])"
proof (cases "length xs < 60")
  case True
  then show ?thesis by (simp add: Let_def)
next
  case False
  then have ge: "60 \<le> length xs" by simp
  then have ne: "drop (length xs - 60) xs \<noteq> []" by simp
  have k: "Suc (length xs) - 60 = Suc (length xs - 60)" using ge by simp
  have "tl (drop (length xs - 60) xs @ [y]) = tl (drop (length xs - 60) xs) @ [y]"
    using ne by simp
  also have "\<dots> = drop (Suc (length xs - 60)) xs @ [y]"
    by (simp add: drop_Suc tl_drop)
  also have "\<dots> = drop (Suc (length xs) - 60) (xs @ [y])"
    unfolding k using ge by simp
  finally show ?thesis using ge by (simp add: Let_def)
qed

lemma recent_window_snoc:
  "recent_window (rs @ [x]) =
     (let h = recent_window rs @ [(int (length rs) + 1, x)]
      in if length h > 60 then tl h else h)"
proof -
  let ?n = "length rs"
  let ?samples = "zip (map int [1..<Suc ?n]) rs"
  have len: "length ?samples = ?n"
    by (simp add: ticks_length del: upt_Suc map_map)
  have snoc: "zip (map int [1..<Suc (length (rs @ [x]))]) (rs @ [x]) = ?samples @ [(int ?n + 1, x)]"
  proof -
    have "zip (map int [1..<Suc ?n] @ [int ?n + 1]) (rs @ [x]) =
          zip (map int [1..<Suc ?n]) rs @ zip [int ?n + 1] [x]"
      by (rule zip_append) (simp only: ticks_length)
    then show ?thesis by (simp only: ticks_snoc length_append_singleton zip_Cons_Cons zip_Nil)
  qed
  have rw: "recent_window rs = drop (length ?samples - 60) ?samples"
    unfolding recent_window_def Let_def ..
  have rw': "recent_window (rs @ [x]) =
             drop (Suc (length ?samples) - 60) (?samples @ [(int ?n + 1, x)])"
    unfolding recent_window_def Let_def snoc by (simp only: length_append_singleton)
  show ?thesis
    unfolding rw' rw by (rule window_snoc [symmetric])
qed

lemma window_inv_step: "window_inv s \<Longrightarrow> window_inv (snd (step p on_update t s))"
  unfolding window_inv_def
  by (simp add: step_chart_fields step_session_fields(1) recent_window_snoc)

lemma window_inv_sleep: "window_inv s \<Longrightarrow> window_inv (during_sleep t s)"
  by (simp add: window_inv_def)

lemma window_inv_start: "activity s \<noteq> [] \<Longrightarrow> window_inv (fst (start_monitoring s))"
  by (simp add: window_inv_def start_monitoring_def recent_window_def)

lemma recent_window_length: "length (recent_window rs) = min (length rs) 60"
  unfolding recent_window_def Let_def by (simp add: ticks_length del: upt_Suc map_map)

lemma recent_window_ticks:
  "map fst (recent_window rs) = map int [Suc (length rs - 60)..<Suc (length rs)]"
proof -
  have z: "length (zip (map int [1..<Suc (length rs)]) rs) = length rs"
    by (simp add: ticks_length del: upt_Suc map_map)
  have "map fst (recent_window rs) =
        drop (length rs - 60) (map fst (zip (map int [1..<Suc (length rs)]) rs))"
    unfolding recent_window_def Let_def z by (simp only: drop_map)
  also have "map fst (zip (map int [1..<Suc (length rs)]) rs) = map int [1..<Suc (length rs)]"
    by (rule map_fst_zip) (simp only: ticks_length)
  also have "drop (length rs - 60) (map int [1..<Suc (length rs)]) =
             map int (drop (length rs - 60) [1..<Suc (length rs)])"
    by (simp only: drop_map)
  also have "drop (length rs - 60) [1..<Suc (length rs)] = [Suc (length rs - 60)..<Suc (length rs)]"
    by (simp add: drop_upt del: upt_Suc)
  finally show ?thesis .
qed

lemma recent_window_values: "map snd (recent_window rs) = drop (length rs - 60) rs"
proof -
  have z: "length (zip (map int [1..<Suc (length rs)]) rs) = length rs"
    by (simp add: ticks_length del: upt_Suc map_map)
  have "map snd (recent_window rs) =
        drop (length rs - 60) (map snd (zip (map int [1..<Suc (length rs)]) rs))"
    unfolding recent_window_def Let_def z by (simp only: drop_map)
  also have "map snd (zip (map int [1..<Suc (length rs)]) rs) = rs"
    by (rule map_snd_zip) (simp only: ticks_length)
  finally show ?thesis .
qed

lemma simulation_loop_sleeping_count:
  "fst (simulation_loop p on_update ts s) = Sleeping \<Longrightarrow>
   length (session_readings (fst (snd (simulation_loop p on_update ts s)))) =
     length (session_readings s) + length ts"
proof (induction ts arbitrary: s)
  case Nil
  then show ?case by (simp add: simulation_loop.simps)
next
  case (Cons t ts)
  show ?case
  proof (cases "is_monitoring s")
    case False
    then show ?thesis using Cons.prems by (simp add: simulation_loop_exit)
  next
    case True
    show ?thesis
    proof (cases "fst (step p on_update t s)")
      case (Some e)
      show ?thesis using Cons.prems
        unfolding simulation_loop_fault [OF True Some] by simp
    next
      case None
      show ?thesis
        using Cons.IH [of "during_sleep t (snd (step p on_update t s))"] Cons.prems
        unfolding simulation_loop_continue [OF True None]
        by (simp add: step_session_fields(1))
    qed
  qed
qed

lemma first_sample:
  assumes "unit_draw (u_redraw t)" and "activity s \<noteq> []"
  shows "session_readings (first_step on_update t s) = [heart_rate (first_step on_update t s)] \<and>
         min_bpm (first_step on_update t s) = heart_rate (first_step on_update t s) \<and>
         max_bpm (first_step on_update t s) = heart_rate (first_step on_update t s)"
proof -
  let ?s1 = "fst (start_monitoring s)"
  have st: "session_readings ?s1 = []" "min_bpm ?s1 = 999" "max_bpm ?s1 = 0"
    using assms(2) by (simp_all add: start_monitoring_def)
  have r: "40 \<le> heart_rate (first_step on_update t s) \<and>
           heart_rate (first_step on_update t s) \<le> 190"
    unfolding first_step_def
    using spec_clamped_range [OF assms(1)] by (simp add: step_heart_rate)
  have f: "session_readings (first_step on_update t s) = [] @ [heart_rate (first_step on_update t s)]"
    "min_bpm (first_step on_update t s) = min 999 (heart_rate (first_step on_update t s))"
    "max_bpm (first_step on_update t s) = max 0 (heart_rate (first_step on_update t s))"
    unfolding first_step_def by (simp_all only: step_session_fields(1,2,3) st)
  show ?thesis using r unfolding f by simp
qed


lemma session_after_window: "activity s0 \<noteq> [] \<Longrightarrow> window_inv (session_after on_update ts s0)"
  unfolding session_after_def run_simulation_def
  by (rule simulation_loop_invariant [where I = window_inv])
    (simp_all add: window_inv_step window_inv_sleep window_inv_start)

lemma session_after_count:
  assumes "activity s0 \<noteq> []"
    and "fst (run_simulation on_update ts (fst (start_monitoring s0))) = Sleeping"
  shows "length (session_readings (session_after on_update ts s0)) = length ts"
proof -
  have e: "session_readings (fst (start_monitoring s0)) = []"
    using assms(1) by (simp add: start_monitoring_def)
  show ?thesis
    unfolding session_after_def
    using simulation_loop_sleeping_count [of "get_profile (activity (fst (start_monitoring s0)))"
        on_update ts "fst (start_monitoring s0)"] assms(2)
    unfolding run_simulation_def e by simp
qed

lemma single_tick_run:
  assumes "activity s0 \<noteq> []" and "stop_pressed t = None"
  shows "run_simulation None [t] (fst (start_monitoring s0)) =
           (Sleeping, first_step None t s0, [])"
proof -
  let ?s1 = "fst (start_monitoring s0)"
  let ?p = "get_profile (activity s0)"
  have m: "is_monitoring ?s1" using assms(1) by (simp add: start_monitoring_def)
  have n: "fst (step ?p None t ?s1) = None" by (simp add: step_def Let_def)
  have d: "during_sleep t (snd (step ?p None t ?s1)) = snd (step ?p None t ?s1)"
    using assms(2) by (simp add: during_sleep_def)
  have "simulation_loop ?p None [t] ?s1 = simulation_loop ?p None [] (snd (step ?p None t ?s1))"
    unfolding simulation_loop_continue [OF m n] d ..
  also have "\<dots> = (Sleeping, snd (step ?p None t ?s1), [])"
    using m by (simp add: simulation_loop.simps)
  finally show ?thesis by (simp add: run_simulation_def first_step_def)
qed

lemma first_step_running:
  "heart_rate (first_step None example_tick running_selected) = fl (1158 / 10)"
proof -
  have "spec_clamped example_tick (spec_smoothed (get_profile ''Running'') example_tick 72) =
        fl (1158 / 10)"
    unfolding running_from_72 using fl_1158_range by (rule clamped_inside)
  then show ?thesis
    by (simp add: first_step_def step_heart_rate running_selected_def init_state_def)
qed

subsection \<open>C3: minimum, maximum and average of a session\<close>



subsection \<open>C4: the chart history is a rolling window of 60\<close>

text \<open>
  C4. In a session started by \<open>start_monitoring\<close> (activity set), after any number of loop
  iterations: \<open>history\<close> has as many entries as there are readings, but at most 60; the
  tick counter equals the number of readings; the tick numbers in \<open>history\<close> are the
  consecutive integers ending at the tick counter; and the values are the last 60
  readings, in order. While the task is still running, the number of readings is the
  number of iterations. One iteration appends the pair (tick counter + 1, heart rate)
  at the back and, when that makes 61 entries, removes the first.
\<close>

theorem history_rolling_window:
  assumes "activity s0 \<noteq> []"
  shows "length (history (session_after on_update ts s0)) =
           min (length (session_readings (session_after on_update ts s0))) 60 \<and>
         time_counter (session_after on_update ts s0) =
           int (length (session_readings (session_after on_update ts s0))) \<and>
         map fst (history (session_after on_update ts s0)) =
           map int [Suc (length (session_readings (session_after on_update ts s0)) - 60)
                    ..< Suc (length (session_readings (session_after on_update ts s0)))] \<and>
         map snd (history (session_after on_update ts s0)) =
           drop (length (session_readings (session_after on_update ts s0)) - 60)
             (session_readings (session_after on_update ts s0)) \<and>
         (fst (run_simulation on_update ts (fst (start_monitoring s0))) = Sleeping \<longrightarrow>
            length (session_readings (session_after on_update ts s0)) = length ts) \<and>
         history (snd (step p on_update t s)) =
           (let h = history s @ [(time_counter s + 1, heart_rate (snd (step p on_update t s)))]
            in if length h > 60 then tl h else h)"
proof -
  have w: "window_inv (session_after on_update ts s0)"
    using assms by (rule session_after_window)
  note w' = w [unfolded window_inv_def]
  have h: "history (session_after on_update ts s0) =
             recent_window (session_readings (session_after on_update ts s0))"
    by (rule w' [THEN conjunct2])
  have tc: "time_counter (session_after on_update ts s0) =
             int (length (session_readings (session_after on_update ts s0)))"
    by (rule w' [THEN conjunct1])
  have c1: "length (history (session_after on_update ts s0)) =
           min (length (session_readings (session_after on_update ts s0))) 60"
    unfolding h by (rule recent_window_length)
  have c3: "map fst (history (session_after on_update ts s0)) =
           map int [Suc (length (session_readings (session_after on_update ts s0)) - 60)
                    ..< Suc (length (session_readings (session_after on_update ts s0)))]"
    unfolding h by (rule recent_window_ticks)
  have c4: "map snd (history (session_after on_update ts s0)) =
           drop (length (session_readings (session_after on_update ts s0)) - 60)
             (session_readings (session_after on_update ts s0))"
    unfolding h by (rule recent_window_values)
  have c5: "fst (run_simulation on_update ts (fst (start_monitoring s0))) = Sleeping \<longrightarrow>
            length (session_readings (session_after on_update ts s0)) = length ts"
    using session_after_count [OF assms] by (rule impI)
  have c6: "history (snd (step p on_update t s)) =
           (let h = history s @ [(time_counter s + 1, heart_rate (snd (step p on_update t s)))]
            in if length h > 60 then tl h else h)"
    by (rule step_chart_fields(3))
  show ?thesis by (intro conjI c1 tc c3 c4 c5 c6)
qed

theorem history_rolling_window_witness:
  "activity running_selected \<noteq> [] \<and>
   fst (run_simulation None [example_tick] (fst (start_monitoring running_selected))) = Sleeping \<and>
   length (session_readings (session_after None [example_tick] running_selected)) = 1 \<and>
   length (history (session_after None [example_tick] running_selected)) = 1 \<and>
   time_counter (session_after None [example_tick] running_selected) = 1 \<and>
   map fst (history (session_after None [example_tick] running_selected)) = [1]"
proof -
  have act: "activity running_selected \<noteq> []" by (simp add: running_selected_def)
  have sp: "stop_pressed example_tick = None" by (simp add: example_tick_def)
  have sl: "fst (run_simulation None [example_tick] (fst (start_monitoring running_selected))) = Sleeping"
    by (simp add: single_tick_run [OF act sp])
  show ?thesis
    using act sl history_rolling_window [OF act, of None "[example_tick]"]
    by simp
qed

subsection \<open>C7: the fields of the session summary\<close>

lemma str_nat_digit: "n < 10 \<Longrightarrow> str_nat n = [digit_char n]"
  by (simp add: str_nat.simps)

lemma str_nat_two: "10 \<le> n \<Longrightarrow> n < 100 \<Longrightarrow> str_nat n = [digit_char (n div 10), digit_char (n mod 10)]"
  by (subst str_nat.simps) (simp add: str_nat_digit)

lemma fmt_02d_two_digits:
  assumes "0 \<le> i" and "i < 100"
  shows "fmt_02d i = [digit_char (nat i div 10), digit_char (nat i mod 10)]"
proof (cases "i < 10")
  case True
  then have "str_nat (nat i) = [digit_char (nat i)]" using assms by (simp add: str_nat_digit)
  moreover have "nat i div 10 = 0" "nat i mod 10 = nat i" using True assms by simp_all
  ultimately show ?thesis using assms by (simp add: fmt_02d_def str_int_def digit_char_def)
next
  case False
  then have "str_nat (nat i) = [digit_char (nat i div 10), digit_char (nat i mod 10)]"
    using assms by (intro str_nat_two) simp_all
  then show ?thesis using assms by (simp add: fmt_02d_def str_int_def)
qed

lemma py_round_1_close: "\<bar>py_round x 1 - x\<bar> \<le> 1 / 20"
proof -
  have "\<bar>of_int (round_half_even (x * 10)) - x * 10\<bar> \<le> 1 / 2"
    by (rule round_half_even_close)
  then show ?thesis by (simp add: py_round_def abs_if field_simps split: if_splits)
qed

lemma py_int_trunc: "\<bar>of_int (py_int x)\<bar> \<le> \<bar>x\<bar> \<and> \<bar>x - of_int (py_int x)\<bar> < 1"
proof (cases "0 \<le> x")
  case True
  define f :: real where "f = of_int \<lfloor>x\<rfloor>"
  have b: "f \<le> x" "x < f + 1" unfolding f_def by linarith+
  have "0 \<le> \<lfloor>x\<rfloor>" using True by simp
  then have nn: "0 \<le> f" unfolding f_def by simp
  have "real_of_int (py_int x) = f" using True by (simp add: py_int_def f_def)
  then show ?thesis using b nn True by (auto simp: abs_if)
next
  case False
  define c :: real where "c = of_int \<lceil>x\<rceil>"
  have b: "x \<le> c" "c - 1 < x" unfolding c_def by linarith+
  have "\<lceil>x\<rceil> \<le> 0" using False by (simp add: ceiling_le_iff)
  then have np: "c \<le> 0" unfolding c_def by simp
  have "real_of_int (py_int x) = c" using False by (simp add: py_int_def c_def)
  then show ?thesis using b np False by (auto simp: abs_if)
qed

lemma stop_monitoring_last:
  assumes "session_readings s \<noteq> []"
  shows "last (history_sessions (fst (stop_monitoring d s))) =
           \<lparr> s_date = d, s_activity = activity s,
             s_duration = str_int (total_time s div 60) @ '':'' @ fmt_02d (total_time s mod 60),
             s_avg_bpm = py_round (avg_bpm s) 1,
             s_max_bpm = py_int (max_bpm s),
             s_min_bpm = py_int (min_bpm s) \<rparr>"
  using assms by (simp add: stop_monitoring_def Let_def)


lemma monitoring_state_first_step:
  "monitoring_state = first_step None example_tick running_selected"
  by (simp add: monitoring_state_def first_step_def running_start_def running_selected_def)

lemma monitoring_state_stats:
  "session_readings monitoring_state = [fl (1158 / 10)]"
  "min_bpm monitoring_state = fl (1158 / 10)"
  "max_bpm monitoring_state = fl (1158 / 10)"
  "avg_bpm monitoring_state = fl (1158 / 10)"
  "activity monitoring_state = ''Running''"
proof -
  have act: "activity running_selected \<noteq> []" by (simp add: running_selected_def)
  note f = first_sample [OF unit_draw_example act, of None, folded monitoring_state_first_step,
      unfolded first_step_running [folded monitoring_state_first_step]]
  show "session_readings monitoring_state = [fl (1158 / 10)]" using f by simp
  show "min_bpm monitoring_state = fl (1158 / 10)" using f by simp
  show "max_bpm monitoring_state = fl (1158 / 10)" using f by simp
  have "avg_bpm monitoring_state =
          sum_list (session_readings monitoring_state) / of_nat (length (session_readings monitoring_state))"
    unfolding monitoring_state_def by (rule step_session_fields(4))
  then show "avg_bpm monitoring_state = fl (1158 / 10)" using f by simp
  show "activity monitoring_state = ''Running''"
    by (simp add: monitoring_state_def running_start_simps)
qed

lemma summary_of_1158:
  "py_round (fl (1158 / 10)) 1 = 1158 / 10" "py_int (fl (1158 / 10)) = 115"
  by (simp_all add: float_eval py_int_def)

text \<open>
  C7, refuted as stated. For a session of 65 seconds the recorded duration is \<open>1:05\<close>, while
  the two-digit rendering of minutes and seconds is \<open>01:05\<close>: the minutes are not padded.
\<close>

theorem summary_duration_counterexample:
  "session_readings long_session \<noteq> [] \<and> total_time long_session = 65 \<and>
   s_duration (last_summary ''2024-01-01 10:00'' long_session) = ''1:05'' \<and>
   spec_mmss (total_time long_session) = ''01:05'' \<and>
   s_duration (last_summary ''2024-01-01 10:00'' long_session) \<noteq> spec_mmss (total_time long_session)"
proof -
  have r: "session_readings long_session \<noteq> []"
    by (simp add: long_session_def monitoring_state_stats)
  have t: "total_time long_session = 65" by (simp add: long_session_def)
  have d: "s_duration (last_summary ''2024-01-01 10:00'' long_session) = ''1:05''"
    unfolding last_summary_def stop_monitoring_last [OF r] t
    by (simp add: str_int_def str_nat_digit fmt_02d_two_digits digit_char_def)
  have m: "spec_mmss (total_time long_session) = ''01:05''"
    unfolding t spec_mmss_def by (simp add: fmt_02d_two_digits digit_char_def)
  show ?thesis using r t d m by simp
qed

text \<open>
  C7, amended. For a non-empty session with a non-negative total time, the summary
  appended by \<open>stop_monitoring\<close> holds: the date given, the activity unchanged; as duration
  the minutes (total time div 60) in plain decimal without padding, a colon, and the
  seconds (total time mod 60) as exactly two digits, so a session under ten minutes has
  a duration of four characters; as average the session average rounded to one decimal
  place (a multiple of 1/10 within 1/20 of the average); as maximum and minimum the
  session extremes truncated towards zero to integers.
\<close>

theorem session_summary_fields:
  assumes "session_readings s \<noteq> []" and "0 \<le> total_time s"
  shows "s_date (last_summary d s) = d \<and>
         s_activity (last_summary d s) = activity s \<and>
         s_duration (last_summary d s) =
           str_nat (nat (total_time s div 60)) @ '':'' @
           [digit_char (nat (total_time s mod 60) div 10), digit_char (nat (total_time s mod 60) mod 10)] \<and>
         (total_time s < 600 \<longrightarrow> length (s_duration (last_summary d s)) = 4) \<and>
         s_avg_bpm (last_summary d s) = py_round (avg_bpm s) 1 \<and>
         s_avg_bpm (last_summary d s) * 10 = of_int (round_half_even (avg_bpm s * 10)) \<and>
         \<bar>s_avg_bpm (last_summary d s) - avg_bpm s\<bar> \<le> 1 / 20 \<and>
         s_max_bpm (last_summary d s) = py_int (max_bpm s) \<and>
         \<bar>of_int (s_max_bpm (last_summary d s))\<bar> \<le> \<bar>max_bpm s\<bar> \<and>
         \<bar>max_bpm s - of_int (s_max_bpm (last_summary d s))\<bar> < 1 \<and>
         s_min_bpm (last_summary d s) = py_int (min_bpm s) \<and>
         \<bar>of_int (s_min_bpm (last_summary d s))\<bar> \<le> \<bar>min_bpm s\<bar> \<and>
         \<bar>min_bpm s - of_int (s_min_bpm (last_summary d s))\<bar> < 1"
proof -
  have sec: "fmt_02d (total_time s mod 60) =
      [digit_char (nat (total_time s mod 60) div 10), digit_char (nat (total_time s mod 60) mod 10)]"
    by (rule fmt_02d_two_digits) simp_all
  have mins: "str_int (total_time s div 60) = str_nat (nat (total_time s div 60))"
    using assms(2) by (simp add: str_int_def)
  have short: "length (str_nat (nat (total_time s div 60))) = 1" if "total_time s < 600"
  proof -
    have "nat (total_time s div 60) < 10" using that assms(2) by simp
    then show ?thesis by (simp add: str_nat_digit)
  qed
  have flds: "s_date (last_summary d s) = d"
    "s_activity (last_summary d s) = activity s"
    "s_duration (last_summary d s) =
       str_int (total_time s div 60) @ '':'' @ fmt_02d (total_time s mod 60)"
    "s_avg_bpm (last_summary d s) = py_round (avg_bpm s) 1"
    "s_max_bpm (last_summary d s) = py_int (max_bpm s)"
    "s_min_bpm (last_summary d s) = py_int (min_bpm s)"
    unfolding last_summary_def stop_monitoring_last [OF assms(1)] by simp_all
  have c3: "s_duration (last_summary d s) =
           str_nat (nat (total_time s div 60)) @ '':'' @
           [digit_char (nat (total_time s mod 60) div 10), digit_char (nat (total_time s mod 60) mod 10)]"
    unfolding flds(3) sec mins ..
  have c4: "total_time s < 600 \<longrightarrow> length (s_duration (last_summary d s)) = 4"
    unfolding c3 using short by simp
  have c6: "s_avg_bpm (last_summary d s) * 10 = of_int (round_half_even (avg_bpm s * 10))"
    unfolding flds(4) by (simp add: py_round_def)
  have c7: "\<bar>s_avg_bpm (last_summary d s) - avg_bpm s\<bar> \<le> 1 / 20"
    unfolding flds(4) by (rule py_round_1_close)
  note mx = py_int_trunc [of "max_bpm s", folded flds(5)]
  note mn = py_int_trunc [of "min_bpm s", folded flds(6)]
  show ?thesis
    by (intro conjI flds(1) flds(2) c3 c4 flds(4) c6 c7 flds(5) mx [THEN conjunct1]
        mx [THEN conjunct2] flds(6) mn [THEN conjunct1] mn [THEN conjunct2])
qed

theorem session_summary_fields_witness:
  "session_readings long_session \<noteq> [] \<and> 0 \<le> total_time long_session \<and>
   total_time long_session < 600 \<and>
   s_activity (last_summary ''2024-01-01 10:00'' long_session) = ''Running'' \<and>
   s_duration (last_summary ''2024-01-01 10:00'' long_session) = ''1:05'' \<and>
   length (s_duration (last_summary ''2024-01-01 10:00'' long_session)) = 4 \<and>
   s_avg_bpm (last_summary ''2024-01-01 10:00'' long_session) = 1158 / 10 \<and>
   s_max_bpm (last_summary ''2024-01-01 10:00'' long_session) = 115 \<and>
   s_min_bpm (last_summary ''2024-01-01 10:00'' long_session) = 115"
proof -
  have r: "session_readings long_session \<noteq> []"
    by (simp add: long_session_def monitoring_state_stats)
  have t: "0 \<le> total_time long_session" "total_time long_session < 600"
    "total_time long_session = 65"
    by (simp_all add: long_session_def)
  have v: "avg_bpm long_session = fl (1158 / 10)" "max_bpm long_session = fl (1158 / 10)"
    "min_bpm long_session = fl (1158 / 10)" "activity long_session = ''Running''"
    by (simp_all add: long_session_def monitoring_state_stats)
  show ?thesis
    using r t(1,2) session_summary_fields [OF r t(1), of "''2024-01-01 10:00''"]
      summary_of_1158
    unfolding v t(3)
    by (simp add: str_nat_digit digit_char_def)
qed

end
